theory Spec2Isabelle
  imports Main "HOL-Library.Word"
begin

section \<open>The Go runtime as far as the streams use it\<close>

text \<open>
  A run-time panic of the Go code is a value: every function that indexes a slice or
  calls a method through a nil interface returns \<open>panic + 'a\<close>, with \<open>Inl\<close> the panic.
\<close>

datatype panic = IndexOutOfRange | NilDereference

text \<open>\<open>xs[i]\<close> on a slice: out of range is a panic.\<close>

definition at :: "'a list \<Rightarrow> nat \<Rightarrow> panic + 'a" where
  "at xs i = (if i < length xs then Inr (xs ! i) else Inl IndexOutOfRange)"

text \<open>
  A slice that the code compares with nil is an option: \<open>None\<close> is the nil slice,
  \<open>Some []\<close> an empty slice that is not nil. Both have length 0.
\<close>

definition elems :: "'a list option \<Rightarrow> 'a list" where
  "elems s = (case s of None \<Rightarrow> [] | Some xs \<Rightarrow> xs)"

text \<open>
  \<open>strconv.ParseUint(s, 10, 32)\<close>: a non-empty string of decimal digits (no sign, no
  underscore) whose value fits 32 bits; anything else is an error (\<open>None\<close>).
\<close>

definition digit_val :: "char \<Rightarrow> nat option" where
  "digit_val c =
     (let n = (of_char c :: nat) in if 48 \<le> n \<and> n \<le> 57 then Some (n - 48) else None)"

fun parse_digits :: "nat \<Rightarrow> string \<Rightarrow> nat option" where
  "parse_digits acc [] = Some acc"
| "parse_digits acc (c # cs) =
     (case digit_val c of None \<Rightarrow> None | Some d \<Rightarrow> parse_digits (acc * 10 + d) cs)"

definition ParseUint :: "string \<Rightarrow> nat option" where
  "ParseUint s =
     (if s = [] then None
      else (case parse_digits 0 s of
              None \<Rightarrow> None
            | Some n \<Rightarrow> if n < 2 ^ 32 then Some n else None))"

text \<open>\<open>strconv.Itoa(j)\<close> for a loop index \<open>j\<close>, which is never negative.\<close>

definition digit_char :: "nat \<Rightarrow> char" where
  "digit_char d = ''0123456789'' ! d"

fun Itoa :: "nat \<Rightarrow> string" where
  "Itoa n = (if n < 10 then [digit_char n] else Itoa (n div 10) @ [digit_char (n mod 10)])"

declare Itoa.simps [simp del]

text \<open>\<open>strings.ToLower\<close> on the ASCII letters, which is all the kinds compared need.\<close>

definition to_lower_char :: "char \<Rightarrow> char" where
  "to_lower_char c =
     (let n = (of_char c :: nat) in if 65 \<le> n \<and> n \<le> 90 then char_of (n + 32) else c)"

definition ToLower :: "string \<Rightarrow> string" where
  "ToLower s = map to_lower_char s"

text \<open>
  \<open>for k, v := range m\<close> over a Go map visits every key once, in an order the runtime
  chooses anew for each loop. The order is an input of the model: the list of keys in
  the order of the visit. A key that is not in the map (any more) is passed over.
\<close>

definition range_map :: "'k list \<Rightarrow> ('k \<rightharpoonup> 'v) \<Rightarrow> ('k \<times> 'v) list" where
  "range_map order m = List.map_filter (\<lambda>k. map_option (Pair k) (m k)) order"

definition visits :: "'k list \<Rightarrow> ('k \<rightharpoonup> 'v) \<Rightarrow> bool" where
  "visits order m = (distinct order \<and> set order = dom m)"

section \<open>The session descriptor\<close>

type_synonym ssrc = "32 word"

text \<open>
  Modelled from the spec: the descriptor types of package \<open>sdp\<close>, which the streams
  import and whose source is not part of the repository. Section 6 gives their content:
  track id, kind, encoding list (rid, parameter map including ssrc), ssrc-group list
  (semantics tag and ordered ssrc members), media id; an SSRC is a 32-bit identifier.
  The fields are what the getters \<open>GetSemantics\<close>, \<open>GetSSRCs\<close>, \<open>GetID\<close>, \<open>GetParams\<close>,
  \<open>GetMediaID\<close>, \<open>GetMedia\<close>, \<open>GetSSRCS\<close>, \<open>GetSourceGroupS\<close> and \<open>GetEncodings\<close> return.
\<close>

record SourceGroupInfo =
  sgi_semantics :: string
  sgi_ssrcs :: "ssrc list option"

record TrackEncodingInfo =
  tei_id :: string
  tei_params :: "string \<rightharpoonup> string"

record TrackInfo =
  ti_id :: string
  ti_mediaID :: string
  ti_media :: string
  ti_ssrcs :: "ssrc list"
  ti_groups :: "SourceGroupInfo list"
  ti_encodings :: "TrackEncodingInfo list list"

text \<open>
  Modelled from the spec: \<open>TrackInfo.GetSourceGroup(semantics)\<close> of package \<open>sdp\<close>, the
  grouping labeled with the given semantics (section 4.1: "a grouping labeled SIM
  exists"), nil when there is none. The first such group in the descriptor's list.
\<close>

definition GetSourceGroup :: "TrackInfo \<Rightarrow> string \<Rightarrow> SourceGroupInfo option" where
  "GetSourceGroup track semantics =
     find (\<lambda>grp. sgi_semantics grp = semantics) (ti_groups track)"

section \<open>Native source groups and the transport\<close>

text \<open>
  A source group of the native wrapper. Each of its three roles (media, rtx, fec) is a
  source, of which the streams write the ssrc only; the statistics fields of a source
  are left out.
\<close>

record RTPIncomingSourceGroup =
  in_rid :: string
  in_mid :: string
  in_type :: nat
  in_media :: ssrc
  in_rtx :: ssrc
  in_fec :: ssrc

record RTPOutgoingSourceGroup =
  out_type :: nat
  out_media :: ssrc
  out_rtx :: ssrc
  out_fec :: ssrc

text \<open>
  Native objects (transport, receiver, sender) are held by handle; a nil interface is
  \<open>None\<close>. What the calls through the wrapper do to the native side is kept in one
  record: the transport's dispatch table of registered source groups, the tracks whose
  \<open>Stop\<close> has run, the receivers deleted, and the calls made to add-track listeners.
\<close>

type_synonym handle = nat

record native =
  incomingGroups :: "RTPIncomingSourceGroup list"
  outgoingGroups :: "RTPOutgoingSourceGroup list"
  stoppedTracks :: "string list"
  deletedReceivers :: "handle option list"
  notified :: "(handle \<times> string) list"

text \<open>
  Modelled from the spec: the constructors of the native source groups. A new group has
  no rid and no mid, and every role's ssrc is 0, the sentinel for absent (section 3).
  The incoming one is built with \<open>Transport.GetTimeService()\<close>, a method call that
  panics on a nil transport.
\<close>

definition NewRTPIncomingSourceGroup :: "nat \<Rightarrow> handle option \<Rightarrow> panic + RTPIncomingSourceGroup" where
  "NewRTPIncomingSourceGroup mediaType transport =
     (case transport of
        None \<Rightarrow> Inl NilDereference
      | Some _ \<Rightarrow> Inr \<lparr>in_rid = [], in_mid = [], in_type = mediaType,
                     in_media = 0, in_rtx = 0, in_fec = 0\<rparr>)"

definition NewRTPOutgoingSourceGroup :: "nat \<Rightarrow> RTPOutgoingSourceGroup" where
  "NewRTPOutgoingSourceGroup mediaType =
     \<lparr>out_type = mediaType, out_media = 0, out_rtx = 0, out_fec = 0\<rparr>"

text \<open>
  Modelled from the spec: registration with the transport's dispatch table (section 6,
  \<open>RegisterSourceGroup\<close>) adds the group to the table.
\<close>

definition AddIncomingSourceGroup :: "RTPIncomingSourceGroup \<Rightarrow> native \<Rightarrow> native" where
  "AddIncomingSourceGroup source w = w\<lparr>incomingGroups := incomingGroups w @ [source]\<rparr>"

definition AddOutgoingSourceGroup :: "RTPOutgoingSourceGroup \<Rightarrow> native \<Rightarrow> native" where
  "AddOutgoingSourceGroup source w = w\<lparr>outgoingGroups := outgoingGroups w @ [source]\<rparr>"

definition mediaTypeOf :: "TrackInfo \<Rightarrow> nat" where
  "mediaTypeOf track = (if ti_media track = ''video'' then 1 else 0)"

section \<open>Incoming streams\<close>

text \<open>
  Modelled from the spec: the incoming track made by \<open>NewIncomingStreamTrack(media, id,
  receiver, sources)\<close>, whose source is not under src: id, media kind and the mapping
  from encoding key to source group (section 3).
\<close>

record IncomingStreamTrack =
  it_id :: string
  it_media :: string
  it_receiver :: "handle option"
  it_sources :: "string \<rightharpoonup> RTPIncomingSourceGroup"

definition NewIncomingStreamTrack ::
  "string \<Rightarrow> string \<Rightarrow> handle option \<Rightarrow> (string \<rightharpoonup> RTPIncomingSourceGroup) \<Rightarrow> IncomingStreamTrack" where
  "NewIncomingStreamTrack media ident receiver sources =
     \<lparr>it_id = ident, it_media = media, it_receiver = receiver, it_sources = sources\<rparr>"

text \<open>
  The stream: \<open>Id\<close>, \<open>Transport\<close>, \<open>Receiver\<close> and \<open>Tracks\<close> of the struct. \<open>Info\<close>, the
  listener list and the mutex are not read by the methods below.
\<close>

record IncomingStream =
  Id :: string
  Transport :: "handle option"
  Receiver :: "handle option"
  Tracks :: "string \<rightharpoonup> IncomingStreamTrack"

text \<open>
  The body shared by both scans of the ssrc-groups: a group that is "from us" gives its
  second member to the rtx role when it is a FID group and to the fec role when it is a
  FEC-FR group.
\<close>

definition bind_companion :: "SourceGroupInfo \<Rightarrow> RTPIncomingSourceGroup \<Rightarrow> panic + RTPIncomingSourceGroup" where
  "bind_companion grp source =
     (case (if sgi_semantics grp = ''FID''
            then (case at (elems (sgi_ssrcs grp)) 1 of
                    Inl p \<Rightarrow> Inl p
                  | Inr v \<Rightarrow> Inr (source\<lparr>in_rtx := v\<rparr>))
            else Inr source) of
        Inl p \<Rightarrow> Inl p
      | Inr source1 \<Rightarrow>
          (if sgi_semantics grp = ''FEC-FR''
           then (case at (elems (sgi_ssrcs grp)) 1 of
                   Inl p \<Rightarrow> Inl p
                 | Inr v \<Rightarrow> Inr (source1\<lparr>in_fec := v\<rparr>))
           else Inr source1))"

text \<open>The scan of the explicit-encodings branch, which passes over a nil member list.\<close>

fun scan_groups_encoding ::
  "SourceGroupInfo list \<Rightarrow> RTPIncomingSourceGroup \<Rightarrow> panic + RTPIncomingSourceGroup" where
  "scan_groups_encoding [] source = Inr source"
| "scan_groups_encoding (grp # groups) source =
     (if sgi_ssrcs grp \<noteq> None
      then (case at (elems (sgi_ssrcs grp)) 0 of
              Inl p \<Rightarrow> Inl p
            | Inr first \<Rightarrow>
                (if first = in_media source
                 then (case bind_companion grp source of
                         Inl p \<Rightarrow> Inl p
                       | Inr source1 \<Rightarrow> scan_groups_encoding groups source1)
                 else scan_groups_encoding groups source))
      else scan_groups_encoding groups source)"

text \<open>The scan of the SIM branch, which reads the first member of every group.\<close>

fun scan_groups_sim ::
  "SourceGroupInfo list \<Rightarrow> ssrc \<Rightarrow> RTPIncomingSourceGroup \<Rightarrow> panic + RTPIncomingSourceGroup" where
  "scan_groups_sim [] ssrc source = Inr source"
| "scan_groups_sim (grp # groups) ssrc source =
     (case at (elems (sgi_ssrcs grp)) 0 of
        Inl p \<Rightarrow> Inl p
      | Inr first \<Rightarrow>
          (if first = ssrc
           then (case bind_companion grp source of
                   Inl p \<Rightarrow> Inl p
                 | Inr source1 \<Rightarrow> scan_groups_sim groups ssrc source1)
           else scan_groups_sim groups ssrc source))"

type_synonym resolution = "(string \<rightharpoonup> RTPIncomingSourceGroup) \<times> native"

text \<open>One turn of the inner loop over the encodings; \<open>continue\<close> leaves the state as it is.\<close>

definition resolve_encoding ::
  "TrackInfo \<Rightarrow> handle option \<Rightarrow> TrackEncodingInfo \<Rightarrow> resolution \<Rightarrow> panic + resolution" where
  "resolve_encoding track transport encoding st =
     (case NewRTPIncomingSourceGroup (mediaTypeOf track) transport of
        Inl p \<Rightarrow> Inl p
      | Inr source0 \<Rightarrow>
          (let mid = ti_mediaID track;
               rid = tei_id encoding;
               source1 = source0\<lparr>in_rid := rid\<rparr>;
               source2 = (if mid \<noteq> [] then source1\<lparr>in_mid := mid\<rparr> else source1)
           in (case tei_params encoding ''ssrc'' of
                 None \<Rightarrow> Inr ((fst st)(rid \<mapsto> source2), AddIncomingSourceGroup source2 (snd st))
               | Some ssrc \<Rightarrow>
                   (case ParseUint ssrc of
                      None \<Rightarrow> Inr st
                    | Some ssrcUint \<Rightarrow>
                        (case scan_groups_encoding (ti_groups track)
                                (source2\<lparr>in_media := of_nat ssrcUint\<rparr>) of
                           Inl p \<Rightarrow> Inl p
                         | Inr source3 \<Rightarrow>
                             Inr ((fst st)(rid \<mapsto> source3),
                                  AddIncomingSourceGroup source3 (snd st)))))))"

fun resolve_items ::
  "TrackInfo \<Rightarrow> handle option \<Rightarrow> TrackEncodingInfo list \<Rightarrow> resolution \<Rightarrow> panic + resolution" where
  "resolve_items track transport [] st = Inr st"
| "resolve_items track transport (encoding # items) st =
     (case resolve_encoding track transport encoding st of
        Inl p \<Rightarrow> Inl p
      | Inr st1 \<Rightarrow> resolve_items track transport items st1)"

fun resolve_encodings ::
  "TrackInfo \<Rightarrow> handle option \<Rightarrow> TrackEncodingInfo list list \<Rightarrow> resolution \<Rightarrow> panic + resolution" where
  "resolve_encodings track transport [] st = Inr st"
| "resolve_encodings track transport (items # encodings) st =
     (case resolve_items track transport items st of
        Inl p \<Rightarrow> Inl p
      | Inr st1 \<Rightarrow> resolve_encodings track transport encodings st1)"

text \<open>The loop over the members of the SIM group, \<open>j\<close> the index of the member in turn.\<close>

fun resolve_sim ::
  "TrackInfo \<Rightarrow> handle option \<Rightarrow> nat \<Rightarrow> ssrc list \<Rightarrow> resolution \<Rightarrow> panic + resolution" where
  "resolve_sim track transport j [] st = Inr st"
| "resolve_sim track transport j (ssrc # ssrcs) st =
     (case NewRTPIncomingSourceGroup (mediaTypeOf track) transport of
        Inl p \<Rightarrow> Inl p
      | Inr source0 \<Rightarrow>
          (case scan_groups_sim (ti_groups track) ssrc (source0\<lparr>in_media := ssrc\<rparr>) of
             Inl p \<Rightarrow> Inl p
           | Inr source \<Rightarrow>
               resolve_sim track transport (Suc j) ssrcs
                 ((fst st)(Itoa j \<mapsto> source), AddIncomingSourceGroup source (snd st))))"

text \<open>The single-flow branch.\<close>

definition resolve_single :: "TrackInfo \<Rightarrow> handle option \<Rightarrow> resolution \<Rightarrow> panic + resolution" where
  "resolve_single track transport st =
     (case NewRTPIncomingSourceGroup (mediaTypeOf track) transport of
        Inl p \<Rightarrow> Inl p
      | Inr source0 \<Rightarrow>
          (case at (ti_ssrcs track) 0 of
             Inl p \<Rightarrow> Inl p
           | Inr first \<Rightarrow>
               (case (case GetSourceGroup track ''FID'' of
                        Some fid \<Rightarrow> at (elems (sgi_ssrcs fid)) 1
                      | None \<Rightarrow> Inr 0) of
                  Inl p \<Rightarrow> Inl p
                | Inr rtx \<Rightarrow>
                    (case (case GetSourceGroup track ''FEC-FR'' of
                             Some fec_fr \<Rightarrow> at (elems (sgi_ssrcs fec_fr)) 1
                           | None \<Rightarrow> Inr 0) of
                       Inl p \<Rightarrow> Inl p
                     | Inr fec \<Rightarrow>
                         (let source = source0\<lparr>in_media := first, in_rtx := rtx, in_fec := fec\<rparr>
                          in Inr ((fst st)([] \<mapsto> source),
                                  AddIncomingSourceGroup source (snd st)))))))"

text \<open>The three branches of the resolution, in the order the code tests them.\<close>

definition resolve :: "TrackInfo \<Rightarrow> handle option \<Rightarrow> native \<Rightarrow> panic + resolution" where
  "resolve track transport w =
     (if length (ti_encodings track) > 0
      then resolve_encodings track transport (ti_encodings track) (Map.empty, w)
      else (case GetSourceGroup track ''SIM'' of
              Some SIM \<Rightarrow> resolve_sim track transport 0 (elems (sgi_ssrcs SIM)) (Map.empty, w)
            | None \<Rightarrow> resolve_single track transport (Map.empty, w)))"

text \<open>
  \<open>IncomingStream.CreateTrack\<close>: the track made (nil is \<open>None\<close>), the stream and the
  native side after the call.
\<close>

definition IncomingStream_CreateTrack ::
  "native \<Rightarrow> IncomingStream \<Rightarrow> TrackInfo \<Rightarrow>
     panic + (IncomingStreamTrack option \<times> IncomingStream \<times> native)" where
  "IncomingStream_CreateTrack w i track =
     (if Tracks i (ti_id track) \<noteq> None then Inr (None, i, w)
      else (case resolve track (Transport i) w of
              Inl p \<Rightarrow> Inl p
            | Inr (sources, w1) \<Rightarrow>
                (let incomingTrack =
                       NewIncomingStreamTrack (ti_media track) (ti_id track) (Receiver i) sources
                 in Inr (Some incomingTrack,
                         i\<lparr>Tracks := (Tracks i)(ti_id track \<mapsto> incomingTrack)\<rparr>, w1))))"

text \<open>\<open>IncomingStream.AddTrack\<close>: the error returned (nil is \<open>None\<close>) and the stream.\<close>

datatype error = Error string

definition IncomingStream_AddTrack ::
  "IncomingStream \<Rightarrow> IncomingStreamTrack \<Rightarrow> error option \<times> IncomingStream" where
  "IncomingStream_AddTrack i track =
     (if Tracks i (it_id track) \<noteq> None
      then (Some (Error ''Track Id already present in stream''), i)
      else (None, i\<lparr>Tracks := (Tracks i)(it_id track \<mapsto> track)\<rparr>))"

definition IncomingStream_RemoveTrack ::
  "IncomingStream \<Rightarrow> IncomingStreamTrack \<Rightarrow> error option \<times> IncomingStream" where
  "IncomingStream_RemoveTrack i track = (None, i\<lparr>Tracks := (Tracks i)(it_id track := None)\<rparr>)"

text \<open>The snapshots by kind, in the order of the visit of the map.\<close>

definition IncomingStream_GetAudioTracks :: "string list \<Rightarrow> IncomingStream \<Rightarrow> IncomingStreamTrack list" where
  "IncomingStream_GetAudioTracks order i =
     map snd (filter (\<lambda>(k, track). ToLower (it_media track) = ''audio'') (range_map order (Tracks i)))"

definition IncomingStream_GetVideoTracks :: "string list \<Rightarrow> IncomingStream \<Rightarrow> IncomingStreamTrack list" where
  "IncomingStream_GetVideoTracks order i =
     map snd (filter (\<lambda>(k, track). ToLower (it_media track) = ''video'') (range_map order (Tracks i)))"

text \<open>
  Modelled from the spec: \<open>IncomingStreamTrack.Stop\<close>, whose source is not under src.
  The stream stops every track (section 4.2); the native side records that it ran.
\<close>

definition IncomingStreamTrack_Stop :: "IncomingStreamTrack \<Rightarrow> native \<Rightarrow> native" where
  "IncomingStreamTrack_Stop track w = w\<lparr>stoppedTracks := stoppedTracks w @ [it_id track]\<rparr>"

text \<open>The loop of \<open>IncomingStream.Stop\<close>: stop the track, delete its key.\<close>

fun stop_incoming_tracks ::
  "string list \<Rightarrow> (string \<rightharpoonup> IncomingStreamTrack) \<times> native \<Rightarrow> (string \<rightharpoonup> IncomingStreamTrack) \<times> native" where
  "stop_incoming_tracks [] st = st"
| "stop_incoming_tracks (k # order) st =
     (case fst st k of
        None \<Rightarrow> stop_incoming_tracks order st
      | Some track \<Rightarrow>
          stop_incoming_tracks order ((fst st)(k := None), IncomingStreamTrack_Stop track (snd st)))"

definition IncomingStream_Stop :: "string list \<Rightarrow> native \<Rightarrow> IncomingStream \<Rightarrow> IncomingStream \<times> native" where
  "IncomingStream_Stop order w i =
     (if Transport i = None then (i, w)
      else (let st = stop_incoming_tracks order (Tracks i, w);
                w1 = (snd st)\<lparr>deletedReceivers := deletedReceivers (snd st) @ [Receiver i]\<rparr>
            in (i\<lparr>Tracks := fst st, Receiver := None, Transport := None\<rparr>, w1)))"

section \<open>Outgoing streams\<close>

text \<open>
  Modelled from the spec: the transponder and the outgoing track, whose sources are not
  under src. A transponder owns one outgoing source group, fixed at construction, and
  holds an optional incoming side (section 3). The outgoing track made by
  \<open>newOutgoingStreamTrack(media, id, sender, source)\<close> has an id, a kind, its source group
  and the transponder of its pairing, if it has been attached.
\<close>

record Transponder =
  tp_outgoing :: RTPOutgoingSourceGroup
  tp_incoming :: "IncomingStreamTrack option"

record OutgoingStreamTrack =
  ot_id :: string
  ot_media :: string
  ot_sender :: handle
  ot_source :: RTPOutgoingSourceGroup
  ot_transponder :: "Transponder option"

definition newOutgoingStreamTrack ::
  "string \<Rightarrow> string \<Rightarrow> handle \<Rightarrow> RTPOutgoingSourceGroup \<Rightarrow> OutgoingStreamTrack" where
  "newOutgoingStreamTrack media ident sender source =
     \<lparr>ot_id = ident, ot_media = media, ot_sender = sender, ot_source = source,
      ot_transponder = None\<rparr>"

text \<open>
  Modelled from the spec: the methods of the outgoing track (section 4.3). \<open>AttachTo\<close>
  creates or reuses the track's transponder and sets its incoming side; \<open>Detach\<close> is
  \<open>SetIncoming(null)\<close>, which releases the pairing and keeps the track; \<open>Stop\<close> is
  recorded on the native side; \<open>DeleteOutgoingSourceGroup\<close> unregisters the track's
  source group from the transport (section 4.2), a group being known by its content.
\<close>

definition OutgoingStreamTrack_AttachTo ::
  "OutgoingStreamTrack \<Rightarrow> IncomingStreamTrack \<Rightarrow> Transponder \<times> OutgoingStreamTrack" where
  "OutgoingStreamTrack_AttachTo track incomingTrack =
     (let transponder = \<lparr>tp_outgoing = ot_source track, tp_incoming = Some incomingTrack\<rparr>
      in (transponder, track\<lparr>ot_transponder := Some transponder\<rparr>))"

definition OutgoingStreamTrack_Detach :: "OutgoingStreamTrack \<Rightarrow> OutgoingStreamTrack" where
  "OutgoingStreamTrack_Detach track =
     track\<lparr>ot_transponder :=
             map_option (\<lambda>transponder. transponder\<lparr>tp_incoming := None\<rparr>) (ot_transponder track)\<rparr>"

definition OutgoingStreamTrack_Stop :: "OutgoingStreamTrack \<Rightarrow> native \<Rightarrow> native" where
  "OutgoingStreamTrack_Stop track w = w\<lparr>stoppedTracks := stoppedTracks w @ [ot_id track]\<rparr>"

definition DeleteOutgoingSourceGroup :: "OutgoingStreamTrack \<Rightarrow> native \<Rightarrow> native" where
  "DeleteOutgoingSourceGroup track w =
     w\<lparr>outgoingGroups := removeAll (ot_source track) (outgoingGroups w)\<rparr>"

text \<open>
  The stream: \<open>id\<close>, \<open>transport\<close>, \<open>muted\<close>, \<open>tracks\<close> and \<open>onAddTrackListeners\<close> of the
  struct (a listener is held by handle). \<open>info\<close>, \<open>onStopListeners\<close> and the mutex are
  not read by the methods below.
\<close>

record OutgoingStream =
  o_id :: string
  o_transport :: "handle option"
  o_muted :: bool
  o_tracks :: "string \<rightharpoonup> OutgoingStreamTrack"
  o_onAddTrackListeners :: "handle list"

definition OutgoingStream_GetAudioTracks :: "string list \<Rightarrow> OutgoingStream \<Rightarrow> OutgoingStreamTrack list" where
  "OutgoingStream_GetAudioTracks order out =
     map snd (filter (\<lambda>(k, track). ToLower (ot_media track) = ''audio'') (range_map order (o_tracks out)))"

definition OutgoingStream_GetVideoTracks :: "string list \<Rightarrow> OutgoingStream \<Rightarrow> OutgoingStreamTrack list" where
  "OutgoingStream_GetVideoTracks order out =
     map snd (filter (\<lambda>(k, track). ToLower (ot_media track) = ''video'') (range_map order (o_tracks out)))"

text \<open>
  \<open>OutgoingStream.AddTrack\<close> has no result: the error of the model is always \<open>None\<close>.
\<close>

definition OutgoingStream_AddTrack ::
  "OutgoingStream \<Rightarrow> OutgoingStreamTrack \<Rightarrow> error option \<times> OutgoingStream" where
  "OutgoingStream_AddTrack out track =
     (if o_tracks out (ot_id track) \<noteq> None then (None, out)
      else (None, out\<lparr>o_tracks := (o_tracks out)(ot_id track \<mapsto> track)\<rparr>))"

text \<open>\<open>OutgoingStream.Detach\<close>: every track of the map is detached, where it is.\<close>

fun detach_tracks ::
  "string list \<Rightarrow> (string \<rightharpoonup> OutgoingStreamTrack) \<Rightarrow> (string \<rightharpoonup> OutgoingStreamTrack)" where
  "detach_tracks [] m = m"
| "detach_tracks (k # order) m =
     (case m k of
        None \<Rightarrow> detach_tracks order m
      | Some track \<Rightarrow> detach_tracks order (m(k \<mapsto> OutgoingStreamTrack_Detach track)))"

definition OutgoingStream_Detach :: "string list \<Rightarrow> OutgoingStream \<Rightarrow> OutgoingStream" where
  "OutgoingStream_Detach order out = out\<lparr>o_tracks := detach_tracks order (o_tracks out)\<rparr>"

text \<open>\<open>native.TransportToSender\<close> views the transport as a sender: the same native object.\<close>

definition TransportToSender :: "handle \<Rightarrow> handle" where
  "TransportToSender transport = transport"

text \<open>
  \<open>OutgoingStream.CreateTrack\<close>. The source group is built, with its reads of the
  descriptor, before the stream is asked whether it has the id.
\<close>

definition OutgoingStream_CreateTrack ::
  "native \<Rightarrow> OutgoingStream \<Rightarrow> TrackInfo \<Rightarrow>
     panic + (OutgoingStreamTrack option \<times> OutgoingStream \<times> native)" where
  "OutgoingStream_CreateTrack w out track =
     (let source0 = NewRTPOutgoingSourceGroup (mediaTypeOf track)
      in (case at (ti_ssrcs track) 0 of
            Inl p \<Rightarrow> Inl p
          | Inr first \<Rightarrow>
              (case (case GetSourceGroup track ''FID'' of
                       Some fid \<Rightarrow> at (elems (sgi_ssrcs fid)) 1
                     | None \<Rightarrow> Inr 0) of
                 Inl p \<Rightarrow> Inl p
               | Inr rtx \<Rightarrow>
                   (case (case GetSourceGroup track ''FEC-FR'' of
                            Some fec_fr \<Rightarrow> at (elems (sgi_ssrcs fec_fr)) 1
                          | None \<Rightarrow> Inr 0) of
                      Inl p \<Rightarrow> Inl p
                    | Inr fec \<Rightarrow>
                        (let source = source0\<lparr>out_media := first, out_rtx := rtx, out_fec := fec\<rparr>
                         in if o_tracks out (ti_id track) \<noteq> None then Inr (None, out, w)
                            else (case o_transport out of
                                    None \<Rightarrow> Inl NilDereference
                                  | Some transport \<Rightarrow>
                                      (let w1 = AddOutgoingSourceGroup source w;
                                           outgoingTrack =
                                             newOutgoingStreamTrack (ti_media track) (ti_id track)
                                               (TransportToSender transport) source;
                                           out1 = out\<lparr>o_tracks :=
                                                     (o_tracks out)(ot_id outgoingTrack \<mapsto> outgoingTrack)\<rparr>;
                                           w2 = w1\<lparr>notified := notified w1 @
                                                     map (\<lambda>l. (l, ot_id outgoingTrack))
                                                       (o_onAddTrackListeners out)\<rparr>
                                       in Inr (Some outgoingTrack, out1, w2))))))))"

text \<open>The loop of \<open>OutgoingStream.Stop\<close>, and the method.\<close>

fun stop_outgoing_tracks ::
  "string list \<Rightarrow> (string \<rightharpoonup> OutgoingStreamTrack) \<Rightarrow> native \<Rightarrow> native" where
  "stop_outgoing_tracks [] m w = w"
| "stop_outgoing_tracks (k # order) m w =
     (case m k of
        None \<Rightarrow> stop_outgoing_tracks order m w
      | Some track \<Rightarrow>
          stop_outgoing_tracks order m (DeleteOutgoingSourceGroup track (OutgoingStreamTrack_Stop track w)))"

definition OutgoingStream_Stop :: "string list \<Rightarrow> native \<Rightarrow> OutgoingStream \<Rightarrow> OutgoingStream \<times> native" where
  "OutgoingStream_Stop order w out =
     (if o_transport out = None then (out, w)
      else (out\<lparr>o_tracks := Map.empty, o_transport := None\<rparr>,
            stop_outgoing_tracks order (o_tracks out) w))"

text \<open>
  \<open>OutgoingStream.AttachTo\<close>. A snapshot of the outgoing tracks holds pointers: the
  entry of the map is kept with each track, and \<open>AttachTo\<close> on the track writes it there.
\<close>

definition audio_entries :: "string list \<Rightarrow> (string \<rightharpoonup> OutgoingStreamTrack) \<Rightarrow> (string \<times> OutgoingStreamTrack) list" where
  "audio_entries order m =
     filter (\<lambda>(k, track). ToLower (ot_media track) = ''audio'') (range_map order m)"

definition video_entries :: "string list \<Rightarrow> (string \<rightharpoonup> OutgoingStreamTrack) \<Rightarrow> (string \<times> OutgoingStreamTrack) list" where
  "video_entries order m =
     filter (\<lambda>(k, track). ToLower (ot_media track) = ''video'') (range_map order m)"

type_synonym attaching = "Transponder list \<times> (string \<rightharpoonup> OutgoingStreamTrack)"

fun attach_tracks ::
  "(string \<times> OutgoingStreamTrack) list \<Rightarrow> nat \<Rightarrow> nat \<Rightarrow> IncomingStreamTrack list \<Rightarrow>
     attaching \<Rightarrow> panic + attaching" where
  "attach_tracks outs index i [] st = Inr st"
| "attach_tracks outs index i (track # tracks) st =
     (if i < index
      then (case at outs i of
              Inl p \<Rightarrow> Inl p
            | Inr entry \<Rightarrow>
                (let r = OutgoingStreamTrack_AttachTo (snd entry) track
                 in attach_tracks outs index (Suc i) tracks
                      (fst st @ [fst r], (snd st)(fst entry \<mapsto> snd r))))
      else attach_tracks outs index (Suc i) tracks st)"

definition attach_kind ::
  "(string \<times> OutgoingStreamTrack) list \<Rightarrow> IncomingStreamTrack list \<Rightarrow> attaching \<Rightarrow> panic + attaching" where
  "attach_kind outs tracks st =
     (if length outs > 0
      then (let index = (if length outs < length tracks then length tracks else length outs)
            in attach_tracks outs index 0 tracks st)
      else Inr st)"

text \<open>
  The five visits of a map in \<open>AttachTo\<close> each have their order: \<open>od\<close> for \<open>Detach\<close>,
  \<open>oa\<close> and \<open>ov\<close> for the outgoing snapshots, \<open>ia\<close> and \<open>iv\<close> for the incoming ones.
\<close>

definition OutgoingStream_AttachTo ::
  "string list \<Rightarrow> string list \<Rightarrow> string list \<Rightarrow> string list \<Rightarrow> string list \<Rightarrow>
     OutgoingStream \<Rightarrow> IncomingStream \<Rightarrow> panic + (Transponder list \<times> OutgoingStream)" where
  "OutgoingStream_AttachTo od oa ia ov iv out incomingStream =
     (let out1 = OutgoingStream_Detach od out
      in (case attach_kind (audio_entries oa (o_tracks out1))
                 (IncomingStream_GetAudioTracks ia incomingStream) ([], o_tracks out1) of
            Inl p \<Rightarrow> Inl p
          | Inr st1 \<Rightarrow>
              (case attach_kind (video_entries ov (snd st1))
                      (IncomingStream_GetVideoTracks iv incomingStream) st1 of
                 Inl p \<Rightarrow> Inl p
               | Inr st2 \<Rightarrow> Inr (fst st2, out1\<lparr>o_tracks := snd st2\<rparr>))))"

text \<open>\<open>GetTracks\<close> of both streams: all tracks, in the order of the visit.\<close>

definition IncomingStream_GetTracks :: "string list \<Rightarrow> IncomingStream \<Rightarrow> IncomingStreamTrack list" where
  "IncomingStream_GetTracks order i = map snd (range_map order (Tracks i))"

definition OutgoingStream_GetTracks :: "string list \<Rightarrow> OutgoingStream \<Rightarrow> OutgoingStreamTrack list" where
  "OutgoingStream_GetTracks order out = map snd (range_map order (o_tracks out))"

section \<open>What the resolution is to yield\<close>

text \<open>
  The companions of an ssrc, in the words of section 4.1: an ssrc-group is from the ssrc
  when its first member equals it, and a group from the ssrc with semantics FID (FEC-FR)
  binds its second member to the rtx (fec) role. Where several groups with one
  semantics are from the ssrc, the scan leaves the binding of the last; where none is,
  the role keeps what it had, which is 0 for a new group.
\<close>

definition first_is :: "ssrc \<Rightarrow> SourceGroupInfo \<Rightarrow> bool" where
  "first_is ssrc grp = (case elems (sgi_ssrcs grp) of [] \<Rightarrow> False | first # _ \<Rightarrow> first = ssrc)"

definition companion :: "string \<Rightarrow> ssrc \<Rightarrow> SourceGroupInfo list \<Rightarrow> ssrc \<Rightarrow> ssrc" where
  "companion semantics ssrc groups absent =
     (case filter (\<lambda>grp. sgi_semantics grp = semantics \<and> first_is ssrc grp) groups of
        [] \<Rightarrow> absent
      | ms \<Rightarrow> elems (sgi_ssrcs (last ms)) ! 1)"

text \<open>
  The reads of a scan are in range for a group: a FID or FEC-FR group from the ssrc has a
  second member; the scan of the explicit branch passes over a nil member list and reads
  the first member of any other; the scan of the SIM branch reads the first member of
  every group.
\<close>

definition second_ok :: "ssrc \<Rightarrow> SourceGroupInfo \<Rightarrow> bool" where
  "second_ok ssrc grp =
     (first_is ssrc grp \<and> (sgi_semantics grp = ''FID'' \<or> sgi_semantics grp = ''FEC-FR'')
        \<longrightarrow> 2 \<le> length (elems (sgi_ssrcs grp)))"

definition group_safe_encoding :: "ssrc \<Rightarrow> SourceGroupInfo \<Rightarrow> bool" where
  "group_safe_encoding ssrc grp = (sgi_ssrcs grp \<noteq> Some [] \<and> second_ok ssrc grp)"

definition group_safe_sim :: "ssrc \<Rightarrow> SourceGroupInfo \<Rightarrow> bool" where
  "group_safe_sim ssrc grp = (elems (sgi_ssrcs grp) \<noteq> [] \<and> second_ok ssrc grp)"

text \<open>
  An explicit encoding: the ssrc it declares, if the parameter is there and parses;
  whether it is skipped (the parameter is there and does not parse); the source group it
  is to yield; and whether the scan for it stays in range.
\<close>

definition encoding_ssrc :: "TrackEncodingInfo \<Rightarrow> ssrc option" where
  "encoding_ssrc encoding =
     (case tei_params encoding ''ssrc'' of
        None \<Rightarrow> None
      | Some v \<Rightarrow> map_option of_nat (ParseUint v))"

definition encoding_skipped :: "TrackEncodingInfo \<Rightarrow> bool" where
  "encoding_skipped encoding =
     (case tei_params encoding ''ssrc'' of None \<Rightarrow> False | Some v \<Rightarrow> ParseUint v = None)"

definition encoding_group :: "TrackInfo \<Rightarrow> TrackEncodingInfo \<Rightarrow> RTPIncomingSourceGroup" where
  "encoding_group track encoding =
     (case encoding_ssrc encoding of
        None \<Rightarrow> \<lparr>in_rid = tei_id encoding, in_mid = ti_mediaID track, in_type = mediaTypeOf track,
                 in_media = 0, in_rtx = 0, in_fec = 0\<rparr>
      | Some ssrc \<Rightarrow>
          \<lparr>in_rid = tei_id encoding, in_mid = ti_mediaID track, in_type = mediaTypeOf track,
           in_media = ssrc,
           in_rtx = companion ''FID'' ssrc (ti_groups track) 0,
           in_fec = companion ''FEC-FR'' ssrc (ti_groups track) 0\<rparr>)"

definition encoding_safe :: "TrackInfo \<Rightarrow> TrackEncodingInfo \<Rightarrow> bool" where
  "encoding_safe track encoding =
     (case encoding_ssrc encoding of
        None \<Rightarrow> True
      | Some ssrc \<Rightarrow> (\<forall>grp\<in>set (ti_groups track). group_safe_encoding ssrc grp))"

text \<open>A member of the SIM group: the source group it is to yield, and the reads in range.\<close>

definition sim_group :: "TrackInfo \<Rightarrow> ssrc \<Rightarrow> RTPIncomingSourceGroup" where
  "sim_group track ssrc =
     \<lparr>in_rid = [], in_mid = [], in_type = mediaTypeOf track, in_media = ssrc,
      in_rtx = companion ''FID'' ssrc (ti_groups track) 0,
      in_fec = companion ''FEC-FR'' ssrc (ti_groups track) 0\<rparr>"

definition sim_safe :: "TrackInfo \<Rightarrow> ssrc list \<Rightarrow> bool" where
  "sim_safe track ssrcs = (\<forall>ssrc\<in>set ssrcs. \<forall>grp\<in>set (ti_groups track). group_safe_sim ssrc grp)"

text \<open>
  The single flow: the companion is the second member of the descriptor's group with the
  semantics, 0 without such a group; the reads are in range when the descriptor has a
  first ssrc and its FID and FEC-FR groups, where present, have a second member.
\<close>

definition single_companion :: "TrackInfo \<Rightarrow> string \<Rightarrow> ssrc" where
  "single_companion track semantics =
     (case GetSourceGroup track semantics of
        None \<Rightarrow> 0
      | Some grp \<Rightarrow> elems (sgi_ssrcs grp) ! 1)"

definition single_flow_safe :: "TrackInfo \<Rightarrow> bool" where
  "single_flow_safe track =
     (ti_ssrcs track \<noteq> [] \<and>
      (case GetSourceGroup track ''FID'' of
         None \<Rightarrow> True | Some fid \<Rightarrow> 2 \<le> length (elems (sgi_ssrcs fid))) \<and>
      (case GetSourceGroup track ''FEC-FR'' of
         None \<Rightarrow> True | Some fec_fr \<Rightarrow> 2 \<le> length (elems (sgi_ssrcs fec_fr))))"

definition single_group :: "TrackInfo \<Rightarrow> RTPIncomingSourceGroup" where
  "single_group track =
     \<lparr>in_rid = [], in_mid = [], in_type = mediaTypeOf track, in_media = ti_ssrcs track ! 0,
      in_rtx = single_companion track ''FID'', in_fec = single_companion track ''FEC-FR''\<rparr>"

definition single_source :: "TrackInfo \<Rightarrow> RTPOutgoingSourceGroup" where
  "single_source track =
     \<lparr>out_type = mediaTypeOf track, out_media = ti_ssrcs track ! 0,
      out_rtx = single_companion track ''FID'', out_fec = single_companion track ''FEC-FR''\<rparr>"

section \<open>Streams and descriptors of the scenarios\<close>

definition idle_native :: native where
  "idle_native = \<lparr>incomingGroups = [], outgoingGroups = [], stoppedTracks = [],
                  deletedReceivers = [], notified = []\<rparr>"

definition live_incoming :: IncomingStream where
  "live_incoming = \<lparr>Id = ''remote'', Transport = Some 1, Receiver = Some 2, Tracks = Map.empty\<rparr>"

definition live_outgoing :: OutgoingStream where
  "live_outgoing = \<lparr>o_id = ''local'', o_transport = Some 1, o_muted = False,
                    o_tracks = Map.empty, o_onAddTrackListeners = []\<rparr>"

text \<open>One explicit encoding with ssrc 1111 and the group FID = [1111, 2222].\<close>

definition fid_track :: TrackInfo where
  "fid_track =
     \<lparr>ti_id = ''v0'', ti_mediaID = ''0'', ti_media = ''video'', ti_ssrcs = [1111, 2222],
      ti_groups = [\<lparr>sgi_semantics = ''FID'', sgi_ssrcs = Some [1111, 2222]\<rparr>],
      ti_encodings = [[\<lparr>tei_id = ''hi'', tei_params = [''ssrc'' \<mapsto> ''1111'']\<rparr>]]\<rparr>"

text \<open>One explicit encoding whose ssrc is not a number, and the two together.\<close>

definition unparseable_track :: TrackInfo where
  "unparseable_track = fid_track\<lparr>ti_encodings := [[\<lparr>tei_id = ''lo'', tei_params = [''ssrc'' \<mapsto> ''abc'']\<rparr>]]\<rparr>"

definition mixed_track :: TrackInfo where
  "mixed_track =
     fid_track\<lparr>ti_encodings := [[\<lparr>tei_id = ''hi'', tei_params = [''ssrc'' \<mapsto> ''1111'']\<rparr>,
                                 \<lparr>tei_id = ''lo'', tei_params = [''ssrc'' \<mapsto> ''abc'']\<rparr>]]\<rparr>"

text \<open>Two explicit encodings with one rid, the second without an ssrc parameter.\<close>

definition twin_track :: TrackInfo where
  "twin_track =
     fid_track\<lparr>ti_encodings := [[\<lparr>tei_id = ''hi'', tei_params = [''ssrc'' \<mapsto> ''1111'']\<rparr>],
                                 [\<lparr>tei_id = ''hi'', tei_params = Map.empty\<rparr>]]\<rparr>"

text \<open>No encodings: a single flow, a legacy simulcast, a descriptor with no ssrc.\<close>

definition plain_track :: TrackInfo where
  "plain_track = fid_track\<lparr>ti_encodings := []\<rparr>"

definition sim_track :: TrackInfo where
  "sim_track =
     \<lparr>ti_id = ''v1'', ti_mediaID = ''1'', ti_media = ''video'', ti_ssrcs = [10, 11, 20, 21],
      ti_groups = [\<lparr>sgi_semantics = ''SIM'', sgi_ssrcs = Some [10, 20]\<rparr>,
                   \<lparr>sgi_semantics = ''FID'', sgi_ssrcs = Some [10, 11]\<rparr>,
                   \<lparr>sgi_semantics = ''FEC-FR'', sgi_ssrcs = Some [20, 21]\<rparr>],
      ti_encodings = []\<rparr>"

definition bare_track :: TrackInfo where
  "bare_track = plain_track\<lparr>ti_ssrcs := [], ti_groups := []\<rparr>"

definition bare_sim_track :: TrackInfo where
  "bare_sim_track =
     sim_track\<lparr>ti_groups := [\<lparr>sgi_semantics = ''SIM'', sgi_ssrcs = Some [10, 20]\<rparr>,
                               \<lparr>sgi_semantics = ''FID'', sgi_ssrcs = None\<rparr>]\<rparr>"

text \<open>
  An outgoing stream with one audio and one video track, the audio track attached; an
  incoming stream with two audio tracks and one video track.
\<close>

definition scenario_source :: RTPOutgoingSourceGroup where
  "scenario_source = \<lparr>out_type = 0, out_media = 5000, out_rtx = 0, out_fec = 0\<rparr>"

definition scenario_audio :: IncomingStreamTrack where
  "scenario_audio = NewIncomingStreamTrack ''audio'' ''a0'' (Some 2) Map.empty"

definition scenario_in :: IncomingStream where
  "scenario_in =
     live_incoming\<lparr>Tracks := [''a0'' \<mapsto> scenario_audio,
                              ''a1'' \<mapsto> NewIncomingStreamTrack ''audio'' ''a1'' (Some 2) Map.empty,
                              ''v0'' \<mapsto> NewIncomingStreamTrack ''video'' ''v0'' (Some 2) Map.empty]\<rparr>"

definition scenario_out :: OutgoingStream where
  "scenario_out =
     live_outgoing\<lparr>o_tracks :=
       [''a'' \<mapsto> (newOutgoingStreamTrack ''audio'' ''a'' 1 scenario_source)
                   \<lparr>ot_transponder := Some \<lparr>tp_outgoing = scenario_source,
                                            tp_incoming = Some scenario_audio\<rparr>\<rparr>,
        ''v'' \<mapsto> newOutgoingStreamTrack ''video'' ''v'' 1 (scenario_source\<lparr>out_type := 1\<rparr>)]\<rparr>"


definition fitting_in :: IncomingStream where
  "fitting_in =
     live_incoming\<lparr>Tracks := [''a0'' \<mapsto> scenario_audio,
                              ''v0'' \<mapsto> NewIncomingStreamTrack ''video'' ''v0'' (Some 2) Map.empty]\<rparr>"

text \<open>The native side with two outgoing source groups registered.\<close>

definition registered_native :: native where
  "registered_native =
     idle_native\<lparr>outgoingGroups := [scenario_source, scenario_source\<lparr>out_media := 7\<rparr>]\<rparr>"

section \<open>The Go runtime\<close>

lemma ToLower_kinds: "ToLower ''audio'' = ''audio''" "ToLower ''video'' = ''video''"
  by (simp_all add: ToLower_def to_lower_char_def)

lemma digit_val_digit_char: "d < 10 \<Longrightarrow> digit_val (digit_char d) = Some d"
proof -
  assume "d < 10"
  then have "d \<in> {0, 1, 2, 3, 4, 5, 6, 7, 8, 9}" by auto
  then show ?thesis by (auto simp: digit_val_def digit_char_def)
qed

lemma parse_digits_snoc:
  "parse_digits acc (xs @ [c]) =
     (case parse_digits acc xs of None \<Rightarrow> None
      | Some m \<Rightarrow> (case digit_val c of None \<Rightarrow> None | Some d \<Rightarrow> Some (m * 10 + d)))"
  by (induction xs arbitrary: acc) (auto split: option.splits)

lemma parse_digits_Itoa: "parse_digits 0 (Itoa n) = Some n"
proof (induction n rule: Itoa.induct)
  case (1 n)
  show ?case
  proof (cases "n < 10")
    case True
    then show ?thesis by (simp add: Itoa.simps [of n] digit_val_digit_char)
  next
    case False
    with 1 show ?thesis
      by (simp add: Itoa.simps [of n] parse_digits_snoc digit_val_digit_char)
  qed
qed

lemma Itoa_inject: "Itoa i = Itoa j \<longleftrightarrow> i = j"
  by (metis parse_digits_Itoa option.inject)


lemma range_map_Cons:
  "range_map (k # order) m = (case m k of None \<Rightarrow> range_map order m | Some v \<Rightarrow> (k, v) # range_map order m)"
  by (cases "m k") (simp_all add: range_map_def List.map_filter_def)

lemma range_map_Nil: "range_map [] m = []"
  by (simp add: range_map_def List.map_filter_def)

lemma range_map_delete:
  "k \<notin> set order \<Longrightarrow> range_map order (m(k := None)) = range_map order m"
  by (induction order) (auto simp: range_map_Cons range_map_Nil split: option.splits)

lemma set_range_map: "set (range_map order m) = {(k, v). k \<in> set order \<and> m k = Some v}"
  by (induction order) (auto simp: range_map_Cons range_map_Nil split: option.splits)

lemma set_range_map_visits:
  "visits order m \<Longrightarrow> snd ` set (range_map order m) = ran m"
  unfolding set_range_map visits_def ran_def by force

lemma dom_of_keys:
  "\<forall>e\<in>set es. m (f e) = Some (g e) \<Longrightarrow> \<forall>k. k \<notin> f ` set es \<longrightarrow> m k = None \<Longrightarrow>
   dom m = f ` set es"
  by (auto simp: dom_def)

lemmas scenario_defs =
  idle_native_def live_incoming_def live_outgoing_def fid_track_def unparseable_track_def
  mixed_track_def plain_track_def sim_track_def bare_track_def bare_sim_track_def
  scenario_source_def scenario_audio_def scenario_in_def scenario_out_def
  NewIncomingStreamTrack_def newOutgoingStreamTrack_def

section \<open>Attaching and detaching\<close>

lemma attach_tracks_surplus:
  "i + length tracks \<le> index \<Longrightarrow> i \<le> length outs \<Longrightarrow> length outs < i + length tracks \<Longrightarrow>
   attach_tracks outs index i tracks st = Inl IndexOutOfRange"
proof (induction tracks arbitrary: i st)
  case Nil
  then show ?case by simp
next
  case (Cons track tracks)
  show ?case
  proof (cases "i < length outs")
    case True
    with Cons.prems have "attach_tracks outs index (Suc i) tracks
        (fst st @ [fst (OutgoingStreamTrack_AttachTo (snd (outs ! i)) track)],
         (snd st)(fst (outs ! i) \<mapsto> snd (OutgoingStreamTrack_AttachTo (snd (outs ! i)) track)))
        = Inl IndexOutOfRange"
      by (intro Cons.IH) auto
    with True Cons.prems show ?thesis by (simp add: at_def Let_def)
  next
    case False
    with Cons.prems show ?thesis by (simp add: at_def)
  qed
qed

lemma attach_kind_surplus:
  "0 < length outs \<Longrightarrow> length outs < length tracks \<Longrightarrow>
   attach_kind outs tracks st = Inl IndexOutOfRange"
  by (simp add: attach_kind_def attach_tracks_surplus)

lemma OutgoingStreamTrack_Detach_idem:
  "OutgoingStreamTrack_Detach (OutgoingStreamTrack_Detach t) = OutgoingStreamTrack_Detach t"
  by (cases "ot_transponder t") (simp_all add: OutgoingStreamTrack_Detach_def)

lemma detach_tracks_apply:
  "detach_tracks order m k =
     (if k \<in> set order then map_option OutgoingStreamTrack_Detach (m k) else m k)"
proof (induction order arbitrary: m)
  case Nil
  then show ?case by simp
next
  case (Cons a order)
  show ?case
    by (cases "m a") (auto simp: Cons.IH OutgoingStreamTrack_Detach_idem)
qed

lemma range_map_detach:
  "range_map order (detach_tracks od m) =
     map (\<lambda>(k, t). (k, if k \<in> set od then OutgoingStreamTrack_Detach t else t)) (range_map order m)"
  by (induction order) (auto simp: range_map_Cons range_map_Nil detach_tracks_apply split: option.splits)

lemma ot_media_Detach: "ot_media (OutgoingStreamTrack_Detach t) = ot_media t"
  by (simp add: OutgoingStreamTrack_Detach_def)

lemma length_audio_entries_detach:
  "length (audio_entries order (detach_tracks od m)) = length (audio_entries order m)"
proof -
  have "map fst (audio_entries order (detach_tracks od m)) = map fst (audio_entries order m)"
    unfolding audio_entries_def range_map_detach
    by (induction "range_map order m") (auto simp: filter_map o_def ot_media_Detach split: prod.splits)
  then show ?thesis by (metis length_map)
qed

lemma detach_tracks_twice:
  "set order \<subseteq> set od \<Longrightarrow> detach_tracks od (detach_tracks order m) = detach_tracks od m"
  by (rule ext) (auto simp: detach_tracks_apply OutgoingStreamTrack_Detach_idem option.map_comp o_def
      split: option.splits)

lemma dom_detach_tracks: "dom (detach_tracks order m) = dom m"
  by (auto simp: dom_def detach_tracks_apply)

lemma Detach_Detach:
  "set order \<subseteq> set od \<Longrightarrow>
   OutgoingStream_Detach od (OutgoingStream_Detach order out) = OutgoingStream_Detach od out"
  by (simp add: OutgoingStream_Detach_def detach_tracks_twice)

text \<open>
  C1. \<open>AttachTo\<close> is to pair the tracks of a kind up to the shorter of the two lists. The
  code takes the longer length as its bound, so the bound never stops the loop over the
  incoming tracks: when the outgoing stream has audio tracks and the incoming stream has
  more of them, the loop indexes the outgoing list past its end, and \<open>AttachTo\<close> panics
  whatever the orders of the visits.
\<close>

theorem AttachTo_surplus_incoming_panics:
  assumes "0 < length (OutgoingStream_GetAudioTracks oa out)"
    and "length (OutgoingStream_GetAudioTracks oa out) <
         length (IncomingStream_GetAudioTracks ia incomingStream)"
  shows "OutgoingStream_AttachTo od oa ia ov iv out incomingStream = Inl IndexOutOfRange"
proof -
  have "length (OutgoingStream_GetAudioTracks oa out) = length (audio_entries oa (o_tracks out))"
    by (simp add: OutgoingStream_GetAudioTracks_def audio_entries_def)
  then have "length (audio_entries oa (o_tracks (OutgoingStream_Detach od out))) =
        length (OutgoingStream_GetAudioTracks oa out)"
    by (simp add: OutgoingStream_Detach_def length_audio_entries_detach)
  with assms show ?thesis
    by (simp add: OutgoingStream_AttachTo_def Let_def attach_kind_surplus)
qed

text \<open>
  The scenario of the spec: one outgoing audio and video track, two incoming audio tracks
  and one incoming video track. No transponder list is returned.
\<close>

theorem AttachTo_scenario_panics:
  "length (OutgoingStream_GetAudioTracks [''a'', ''v''] scenario_out) = 1 \<and>
   length (OutgoingStream_GetVideoTracks [''a'', ''v''] scenario_out) = 1 \<and>
   length (IncomingStream_GetAudioTracks [''a0'', ''a1'', ''v0''] scenario_in) = 2 \<and>
   length (IncomingStream_GetVideoTracks [''a0'', ''a1'', ''v0''] scenario_in) = 1 \<and>
   OutgoingStream_AttachTo [''a'', ''v''] [''a'', ''v''] [''a0'', ''a1'', ''v0''] [''a'', ''v'']
     [''a0'', ''a1'', ''v0''] scenario_out scenario_in = Inl IndexOutOfRange"
proof -
  have outs: "length (OutgoingStream_GetAudioTracks [''a'', ''v''] scenario_out) = 1"
    "length (OutgoingStream_GetVideoTracks [''a'', ''v''] scenario_out) = 1"
    by (simp_all add: OutgoingStream_GetAudioTracks_def OutgoingStream_GetVideoTracks_def
        range_map_Cons range_map_Nil scenario_defs ToLower_kinds)
  have ins: "length (IncomingStream_GetAudioTracks [''a0'', ''a1'', ''v0''] scenario_in) = 2"
    "length (IncomingStream_GetVideoTracks [''a0'', ''a1'', ''v0''] scenario_in) = 1"
    by (simp_all add: IncomingStream_GetAudioTracks_def IncomingStream_GetVideoTracks_def
        range_map_Cons range_map_Nil scenario_defs ToLower_kinds)
  have "OutgoingStream_AttachTo [''a'', ''v''] [''a'', ''v''] [''a0'', ''a1'', ''v0''] [''a'', ''v'']
     [''a0'', ''a1'', ''v0''] scenario_out scenario_in = Inl IndexOutOfRange"
    by (rule AttachTo_surplus_incoming_panics) (simp_all add: outs ins)
  with outs ins show ?thesis by simp
qed

text \<open>
  C9. \<open>Detach\<close> leaves the membership of the outgoing stream as it is: the same keys, and
  under each key the track with its id, kind, sender and source group; the transponder
  of a track keeps its outgoing group and loses its incoming side; the other fields of
  the stream are unchanged; and attaching the detached stream is attaching the stream.
\<close>

theorem Detach_keeps_tracks:
  assumes "visits order (o_tracks out)" and "visits od (o_tracks out)"
  shows "dom (o_tracks (OutgoingStream_Detach order out)) = dom (o_tracks out) \<and>
         (\<forall>k t. o_tracks out k = Some t \<longrightarrow>
            (\<exists>t'. o_tracks (OutgoingStream_Detach order out) k = Some t' \<and>
                  ot_id t' = ot_id t \<and> ot_media t' = ot_media t \<and>
                  ot_sender t' = ot_sender t \<and> ot_source t' = ot_source t \<and>
                  ot_transponder t' =
                    map_option (\<lambda>tp. tp\<lparr>tp_incoming := None\<rparr>) (ot_transponder t))) \<and>
         o_id (OutgoingStream_Detach order out) = o_id out \<and>
         o_transport (OutgoingStream_Detach order out) = o_transport out \<and>
         o_muted (OutgoingStream_Detach order out) = o_muted out \<and>
         o_onAddTrackListeners (OutgoingStream_Detach order out) = o_onAddTrackListeners out \<and>
         OutgoingStream_AttachTo od oa ia ov iv (OutgoingStream_Detach order out) incomingStream =
           OutgoingStream_AttachTo od oa ia ov iv out incomingStream"
proof -
  have keys: "set order = dom (o_tracks out)" "set od = dom (o_tracks out)"
    using assms by (simp_all add: visits_def)
  have tracks: "\<forall>k t. o_tracks out k = Some t \<longrightarrow>
      o_tracks (OutgoingStream_Detach order out) k = Some (OutgoingStreamTrack_Detach t)"
    using keys by (auto simp: OutgoingStream_Detach_def detach_tracks_apply)
  have again: "OutgoingStream_Detach od (OutgoingStream_Detach order out) = OutgoingStream_Detach od out"
    using keys by (simp add: Detach_Detach)
  show ?thesis
    using tracks again
    by (simp add: OutgoingStream_AttachTo_def)
       (simp add: OutgoingStream_Detach_def dom_detach_tracks OutgoingStreamTrack_Detach_def)
qed

section \<open>The scans of the ssrc-groups\<close>

lemma companion_Nil: "companion semantics ssrc [] absent = absent"
  by (simp add: companion_def)

lemma companion_Cons:
  "companion semantics ssrc (grp # groups) absent =
     companion semantics ssrc groups
       (if sgi_semantics grp = semantics \<and> first_is ssrc grp
        then elems (sgi_ssrcs grp) ! 1 else absent)"
  by (simp add: companion_def split: list.splits)

lemma bind_companion_ok:
  "(sgi_semantics grp = ''FID'' \<or> sgi_semantics grp = ''FEC-FR'' \<longrightarrow> 2 \<le> length (elems (sgi_ssrcs grp))) \<Longrightarrow>
   bind_companion grp source =
     Inr (source\<lparr>in_rtx := (if sgi_semantics grp = ''FID'' then elems (sgi_ssrcs grp) ! 1
                             else in_rtx source),
                 in_fec := (if sgi_semantics grp = ''FEC-FR'' then elems (sgi_ssrcs grp) ! 1
                            else in_fec source)\<rparr>)"
  by (auto simp: bind_companion_def at_def)

lemma scan_groups_encoding_safe:
  "\<forall>grp\<in>set groups. group_safe_encoding (in_media source) grp \<Longrightarrow>
   scan_groups_encoding groups source =
     Inr (source\<lparr>in_rtx := companion ''FID'' (in_media source) groups (in_rtx source),
                 in_fec := companion ''FEC-FR'' (in_media source) groups (in_fec source)\<rparr>)"
proof (induction groups arbitrary: source)
  case Nil
  then show ?case by (simp add: companion_Nil)
next
  case (Cons grp groups)
  from Cons.prems have safe: "group_safe_encoding (in_media source) grp"
    and rest: "\<forall>g\<in>set groups. group_safe_encoding (in_media source) g" by simp_all
  show ?case
  proof (cases "first_is (in_media source) grp")
    case True
    then obtain first more where el: "elems (sgi_ssrcs grp) = first # more" "first = in_media source"
      by (auto simp: first_is_def split: list.splits)
    then have nn: "sgi_ssrcs grp \<noteq> None" by (cases "sgi_ssrcs grp") (auto simp: elems_def)
    from safe True have ok: "sgi_semantics grp = ''FID'' \<or> sgi_semantics grp = ''FEC-FR'' \<longrightarrow>
        2 \<le> length (elems (sgi_ssrcs grp))"
      by (auto simp: group_safe_encoding_def second_ok_def)
    let ?s1 = "source\<lparr>in_rtx := (if sgi_semantics grp = ''FID'' then elems (sgi_ssrcs grp) ! 1
                             else in_rtx source),
                 in_fec := (if sgi_semantics grp = ''FEC-FR'' then elems (sgi_ssrcs grp) ! 1
                            else in_fec source)\<rparr>"
    have m: "in_media ?s1 = in_media source" by simp
    have "scan_groups_encoding groups ?s1 =
            Inr (?s1\<lparr>in_rtx := companion ''FID'' (in_media ?s1) groups (in_rtx ?s1),
                 in_fec := companion ''FEC-FR'' (in_media ?s1) groups (in_fec ?s1)\<rparr>)"
      using rest by (intro Cons.IH) simp
    then show ?thesis
      using True nn el bind_companion_ok [OF ok, of source]
      by (simp add: at_def companion_Cons)
  next
    case False
    from safe have ne: "sgi_ssrcs grp \<noteq> Some []" by (simp add: group_safe_encoding_def)
    have "scan_groups_encoding (grp # groups) source = scan_groups_encoding groups source"
      using False ne by (cases "sgi_ssrcs grp") (auto simp: first_is_def elems_def at_def split: list.splits)
    then show ?thesis
      using False Cons.IH [OF rest] by (simp add: companion_Cons)
  qed
qed

lemma scan_groups_encoding_unsafe:
  "\<exists>grp\<in>set groups. \<not> group_safe_encoding (in_media source) grp \<Longrightarrow>
   scan_groups_encoding groups source = Inl IndexOutOfRange"
proof (induction groups arbitrary: source)
  case Nil
  then show ?case by simp
next
  case (Cons grp groups)
  show ?case
  proof (cases "group_safe_encoding (in_media source) grp")
    case True
    with Cons.prems have rest: "\<exists>g\<in>set groups. \<not> group_safe_encoding (in_media source) g" by simp
    have step: "\<And>s. in_media s = in_media source \<Longrightarrow> scan_groups_encoding groups s = Inl IndexOutOfRange"
      using rest by (intro Cons.IH) simp
    show ?thesis
      using step [of source]
      by (auto simp: bind_companion_def at_def intro!: step split: sum.splits if_splits)
  next
    case False
    then show ?thesis
      by (cases "sgi_ssrcs grp")
         (auto simp: group_safe_encoding_def second_ok_def first_is_def elems_def at_def
            bind_companion_def Suc_le_eq split: list.splits)
  qed
qed

lemma scan_groups_sim_safe:
  "\<forall>grp\<in>set groups. group_safe_sim ssrc grp \<Longrightarrow>
   scan_groups_sim groups ssrc source =
     Inr (source\<lparr>in_rtx := companion ''FID'' ssrc groups (in_rtx source),
                 in_fec := companion ''FEC-FR'' ssrc groups (in_fec source)\<rparr>)"
proof (induction groups arbitrary: source)
  case Nil
  then show ?case by (simp add: companion_Nil)
next
  case (Cons grp groups)
  from Cons.prems have safe: "group_safe_sim ssrc grp"
    and rest: "\<forall>g\<in>set groups. group_safe_sim ssrc g" by simp_all
  from safe obtain first more where el: "elems (sgi_ssrcs grp) = first # more"
    by (cases "elems (sgi_ssrcs grp)") (auto simp: group_safe_sim_def)
  show ?case
  proof (cases "first = ssrc")
    case True
    with el have f: "first_is ssrc grp" by (simp add: first_is_def)
    with safe have ok: "sgi_semantics grp = ''FID'' \<or> sgi_semantics grp = ''FEC-FR'' \<longrightarrow>
        2 \<le> length (elems (sgi_ssrcs grp))"
      by (auto simp: group_safe_sim_def second_ok_def)
    show ?thesis
      using True f el bind_companion_ok [OF ok, of source] Cons.IH [OF rest]
      by (simp add: at_def companion_Cons)
  next
    case False
    with el have f: "\<not> first_is ssrc grp" by (simp add: first_is_def)
    show ?thesis
      using False f el Cons.IH [OF rest] by (simp add: at_def companion_Cons)
  qed
qed

lemma scan_groups_sim_unsafe:
  "\<exists>grp\<in>set groups. \<not> group_safe_sim ssrc grp \<Longrightarrow>
   scan_groups_sim groups ssrc source = Inl IndexOutOfRange"
proof (induction groups arbitrary: source)
  case Nil
  then show ?case by simp
next
  case (Cons grp groups)
  show ?case
  proof (cases "group_safe_sim ssrc grp")
    case True
    with Cons.prems have rest: "\<exists>g\<in>set groups. \<not> group_safe_sim ssrc g" by simp
    have step: "\<And>s. scan_groups_sim groups ssrc s = Inl IndexOutOfRange"
      using rest by (intro Cons.IH)
    from True obtain first more where el: "elems (sgi_ssrcs grp) = first # more"
      by (cases "elems (sgi_ssrcs grp)") (auto simp: group_safe_sim_def)
    have ok: "first = ssrc \<Longrightarrow> sgi_semantics grp = ''FID'' \<or> sgi_semantics grp = ''FEC-FR'' \<longrightarrow>
        2 \<le> length (elems (sgi_ssrcs grp))"
      using True el by (auto simp: group_safe_sim_def second_ok_def first_is_def)
    show ?thesis
    proof (cases "first = ssrc")
      case True
      show ?thesis
        using True el bind_companion_ok [OF ok [OF True], of source] by (simp add: at_def step)
    next
      case False
      then show ?thesis using el by (simp add: at_def step)
    qed
  next
    case False
    then show ?thesis
      by (cases "elems (sgi_ssrcs grp)")
         (auto simp: group_safe_sim_def second_ok_def first_is_def at_def
            bind_companion_def Suc_le_eq)
  qed
qed

section \<open>The three branches of the resolution\<close>

lemma resolve_sim_safe:
  "sim_safe track ssrcs \<Longrightarrow>
   \<exists>m. resolve_sim track (Some tr) j ssrcs st =
          Inr (m, (snd st)\<lparr>incomingGroups := incomingGroups (snd st) @ map (sim_group track) ssrcs\<rparr>) \<and>
        (\<forall>n<length ssrcs. m (Itoa (j + n)) = Some (sim_group track (ssrcs ! n))) \<and>
        (\<forall>k. k \<notin> Itoa ` {j..<j + length ssrcs} \<longrightarrow> m k = fst st k)"
proof (induction ssrcs arbitrary: j st)
  case Nil
  show ?case by (rule exI [of _ "fst st"]) simp
next
  case (Cons ssrc ssrcs)
  from Cons.prems have here: "\<forall>grp\<in>set (ti_groups track). group_safe_sim ssrc grp"
    and rest: "sim_safe track ssrcs" by (simp_all add: sim_safe_def)
  let ?st1 = "((fst st)(Itoa j \<mapsto> sim_group track ssrc),
               AddIncomingSourceGroup (sim_group track ssrc) (snd st))"
  have step: "resolve_sim track (Some tr) j (ssrc # ssrcs) st =
                resolve_sim track (Some tr) (Suc j) ssrcs ?st1"
    using scan_groups_sim_safe [OF here]
    by (simp add: NewRTPIncomingSourceGroup_def sim_group_def)
  from Cons.IH [OF rest, of "Suc j" ?st1] obtain m where
    m: "resolve_sim track (Some tr) (Suc j) ssrcs ?st1 =
          Inr (m, (snd ?st1)\<lparr>incomingGroups := incomingGroups (snd ?st1) @ map (sim_group track) ssrcs\<rparr>)"
       "\<forall>n<length ssrcs. m (Itoa (Suc j + n)) = Some (sim_group track (ssrcs ! n))"
       "\<forall>k. k \<notin> Itoa ` {Suc j..<Suc j + length ssrcs} \<longrightarrow> m k = fst ?st1 k"
    by blast
  have notin: "Itoa j \<notin> Itoa ` {Suc j..<Suc j + length ssrcs}"
    by (auto simp: Itoa_inject)
  have a: "\<forall>n<length (ssrc # ssrcs). m (Itoa (j + n)) = Some (sim_group track ((ssrc # ssrcs) ! n))"
  proof (intro allI impI)
    fix n assume n: "n < length (ssrc # ssrcs)"
    show "m (Itoa (j + n)) = Some (sim_group track ((ssrc # ssrcs) ! n))"
    proof (cases n)
      case 0
      then show ?thesis using m(3) notin by simp
    next
      case (Suc n')
      then show ?thesis using m(2) n by simp
    qed
  qed
  have b: "\<forall>k. k \<notin> Itoa ` {j..<j + length (ssrc # ssrcs)} \<longrightarrow> m k = fst st k"
  proof (intro allI impI)
    fix k assume k: "k \<notin> Itoa ` {j..<j + length (ssrc # ssrcs)}"
    then have "k \<notin> Itoa ` {Suc j..<Suc j + length ssrcs}" and "k \<noteq> Itoa j"
      by auto
    then show "m k = fst st k" using m(3) by simp
  qed
  show ?case
    using step m(1) a b by (simp add: AddIncomingSourceGroup_def)
qed

lemma resolve_sim_unsafe:
  "\<not> sim_safe track ssrcs \<Longrightarrow>
   resolve_sim track (Some tr) j ssrcs st = Inl IndexOutOfRange"
proof (induction ssrcs arbitrary: j st)
  case Nil
  then show ?case by (simp add: sim_safe_def)
next
  case (Cons ssrc ssrcs)
  show ?case
  proof (cases "\<forall>grp\<in>set (ti_groups track). group_safe_sim ssrc grp")
    case True
    with Cons.prems have "\<not> sim_safe track ssrcs" by (simp add: sim_safe_def)
    then show ?thesis
      using Cons.IH scan_groups_sim_safe [OF True]
      by (simp add: NewRTPIncomingSourceGroup_def)
  next
    case False
    then have "\<exists>grp\<in>set (ti_groups track). \<not> group_safe_sim ssrc grp" by simp
    then show ?thesis
      using scan_groups_sim_unsafe by (simp add: NewRTPIncomingSourceGroup_def)
  qed
qed

lemma resolve_encoding_skip:
  "encoding_skipped encoding \<Longrightarrow> resolve_encoding track (Some tr) encoding st = Inr st"
  by (auto simp: encoding_skipped_def resolve_encoding_def NewRTPIncomingSourceGroup_def Let_def
      split: option.splits)

lemma resolve_encoding_safe:
  "\<not> encoding_skipped encoding \<Longrightarrow> encoding_safe track encoding \<Longrightarrow>
   resolve_encoding track (Some tr) encoding st =
     Inr ((fst st)(tei_id encoding \<mapsto> encoding_group track encoding),
          AddIncomingSourceGroup (encoding_group track encoding) (snd st))"
proof (cases "tei_params encoding ''ssrc''")
  case None
  then show ?thesis
    by (cases "ti_mediaID track = []")
       (simp_all add: resolve_encoding_def NewRTPIncomingSourceGroup_def Let_def encoding_group_def
          encoding_ssrc_def)
next
  case (Some v)
  assume ns: "\<not> encoding_skipped encoding" and safe: "encoding_safe track encoding"
  from ns Some obtain n where n: "ParseUint v = Some n"
    by (auto simp: encoding_skipped_def)
  let ?s2 = "\<lparr>in_rid = tei_id encoding, in_mid = ti_mediaID track, in_type = mediaTypeOf track,
              in_media = of_nat n, in_rtx = 0, in_fec = 0\<rparr>"
  from safe Some n have g: "\<forall>grp\<in>set (ti_groups track). group_safe_encoding (in_media ?s2) grp"
    by (simp add: encoding_safe_def encoding_ssrc_def)
  show ?thesis
  proof (cases "ti_mediaID track = []")
    case True
    then show ?thesis
      using Some n scan_groups_encoding_safe [OF g]
      by (simp add: resolve_encoding_def NewRTPIncomingSourceGroup_def Let_def encoding_group_def
          encoding_ssrc_def)
  next
    case False
    then show ?thesis
      using Some n scan_groups_encoding_safe [OF g]
      by (simp add: resolve_encoding_def NewRTPIncomingSourceGroup_def Let_def encoding_group_def
          encoding_ssrc_def)
  qed
qed

lemma resolve_encoding_unsafe:
  "\<not> encoding_safe track encoding \<Longrightarrow>
   resolve_encoding track (Some tr) encoding st = Inl IndexOutOfRange"
proof -
  assume unsafe: "\<not> encoding_safe track encoding"
  then obtain v n where v: "tei_params encoding ''ssrc'' = Some v" and n: "ParseUint v = Some n"
    and g: "\<exists>grp\<in>set (ti_groups track). \<not> group_safe_encoding (of_nat n) grp"
    by (auto simp: encoding_safe_def encoding_ssrc_def split: option.splits)
  have "\<And>s. in_media s = of_nat n \<Longrightarrow> scan_groups_encoding (ti_groups track) s = Inl IndexOutOfRange"
    using g scan_groups_encoding_unsafe by simp
  then show ?thesis
    using v n by (simp add: resolve_encoding_def NewRTPIncomingSourceGroup_def Let_def)
qed

lemma resolve_items_append:
  "resolve_items track transport (xs @ ys) st =
     (case resolve_items track transport xs st of
        Inl p \<Rightarrow> Inl p
      | Inr st1 \<Rightarrow> resolve_items track transport ys st1)"
  by (induction xs arbitrary: st) (auto split: sum.splits)

lemma resolve_encodings_concat:
  "resolve_encodings track transport encodings st =
     resolve_items track transport (concat encodings) st"
  by (induction encodings arbitrary: st) (auto simp: resolve_items_append split: sum.splits)

lemma resolve_items_skip:
  "encoding_skipped encoding \<Longrightarrow>
   resolve_items track (Some tr) (ys @ [encoding] @ zs) st =
     resolve_items track (Some tr) (ys @ zs) st"
  by (auto simp: resolve_items_append resolve_encoding_skip split: sum.splits)

lemma resolve_items_safe:
  "\<forall>e\<in>set items. \<not> encoding_skipped e \<and> encoding_safe track e \<Longrightarrow>
   distinct (map tei_id items) \<Longrightarrow>
   \<exists>m. resolve_items track (Some tr) items st =
          Inr (m, (snd st)\<lparr>incomingGroups :=
                              incomingGroups (snd st) @ map (encoding_group track) items\<rparr>) \<and>
        (\<forall>e\<in>set items. m (tei_id e) = Some (encoding_group track e)) \<and>
        (\<forall>k. k \<notin> tei_id ` set items \<longrightarrow> m k = fst st k)"
proof (induction items arbitrary: st)
  case Nil
  show ?case by (rule exI [of _ "fst st"]) simp
next
  case (Cons e items)
  let ?st1 = "((fst st)(tei_id e \<mapsto> encoding_group track e),
               AddIncomingSourceGroup (encoding_group track e) (snd st))"
  from Cons.prems have e: "\<not> encoding_skipped e" "encoding_safe track e"
    and rest: "\<forall>x\<in>set items. \<not> encoding_skipped x \<and> encoding_safe track x"
    and d: "distinct (map tei_id items)" and notin: "tei_id e \<notin> tei_id ` set items"
    by auto
  have step: "resolve_items track (Some tr) (e # items) st = resolve_items track (Some tr) items ?st1"
    using resolve_encoding_safe [OF e] by simp
  from Cons.IH [OF rest d, of ?st1] obtain m where
    m: "resolve_items track (Some tr) items ?st1 =
          Inr (m, (snd ?st1)\<lparr>incomingGroups :=
                              incomingGroups (snd ?st1) @ map (encoding_group track) items\<rparr>)"
       "\<forall>x\<in>set items. m (tei_id x) = Some (encoding_group track x)"
       "\<forall>k. k \<notin> tei_id ` set items \<longrightarrow> m k = fst ?st1 k"
    by blast
  have a: "\<forall>x\<in>set (e # items). m (tei_id x) = Some (encoding_group track x)"
    using m(2) m(3) notin by auto
  have b: "\<forall>k. k \<notin> tei_id ` set (e # items) \<longrightarrow> m k = fst st k"
    using m(3) by auto
  show ?case
    using step m(1) a b by (simp add: AddIncomingSourceGroup_def)
qed

lemma resolve_encoding_encodings_update:
  "resolve_encoding (track\<lparr>ti_encodings := es\<rparr>) transport e s =
     resolve_encoding track transport e s"
  by (simp add: resolve_encoding_def mediaTypeOf_def Let_def
      cong: option.case_cong sum.case_cong)

lemma resolve_items_encodings_update:
  "resolve_items (track\<lparr>ti_encodings := es\<rparr>) transport items s =
     resolve_items track transport items s"
  by (induction items arbitrary: s)
     (simp_all add: resolve_encoding_encodings_update cong: sum.case_cong)

lemma resolve_single_safe:
  "single_flow_safe track \<Longrightarrow>
   resolve_single track (Some tr) st =
     Inr ((fst st)([] \<mapsto> single_group track), AddIncomingSourceGroup (single_group track) (snd st))"
  by (auto simp: single_flow_safe_def resolve_single_def NewRTPIncomingSourceGroup_def at_def
      single_group_def single_companion_def Let_def split: option.splits)

lemma resolve_single_unsafe:
  "\<not> single_flow_safe track \<Longrightarrow> resolve_single track (Some tr) st = Inl IndexOutOfRange"
  by (auto simp: single_flow_safe_def resolve_single_def NewRTPIncomingSourceGroup_def at_def
      split: option.splits)

lemma resolve_explicit:
  assumes "ti_encodings track \<noteq> []"
  shows "resolve track transport w =
           resolve_items track transport (concat (ti_encodings track)) (Map.empty, w)"
  using assms by (simp add: resolve_def resolve_encodings_concat)

lemma resolve_fallback:
  "ti_encodings track = [] \<Longrightarrow> GetSourceGroup track ''SIM'' = None \<Longrightarrow>
   resolve track transport w = resolve_single track transport (Map.empty, w)"
  by (simp add: resolve_def)

lemma resolve_legacy:
  "ti_encodings track = [] \<Longrightarrow> GetSourceGroup track ''SIM'' = Some SIM \<Longrightarrow>
   resolve track transport w =
     resolve_sim track transport 0 (elems (sgi_ssrcs SIM)) (Map.empty, w)"
  by (simp add: resolve_def)

section \<open>CreateTrack\<close>

lemma IncomingStream_CreateTrack_fresh:
  "Tracks i (ti_id track) = None \<Longrightarrow> resolve track (Transport i) w = Inr (sources, w1) \<Longrightarrow>
   IncomingStream_CreateTrack w i track =
     Inr (Some (NewIncomingStreamTrack (ti_media track) (ti_id track) (Receiver i) sources),
          i\<lparr>Tracks := (Tracks i)(ti_id track \<mapsto>
                NewIncomingStreamTrack (ti_media track) (ti_id track) (Receiver i) sources)\<rparr>,
          w1)"
  by (simp add: IncomingStream_CreateTrack_def Let_def)

lemma IncomingStream_CreateTrack_panic:
  "Tracks i (ti_id track) = None \<Longrightarrow> resolve track (Transport i) w = Inl p \<Longrightarrow>
   IncomingStream_CreateTrack w i track = Inl p"
  by (simp add: IncomingStream_CreateTrack_def)


lemma it_sources_New [simp]:
  "it_sources (NewIncomingStreamTrack media ident receiver sources) = sources"
  by (simp add: NewIncomingStreamTrack_def)

lemma OutgoingStream_CreateTrack_unsafe:
  "\<not> single_flow_safe track \<Longrightarrow> OutgoingStream_CreateTrack w out track = Inl IndexOutOfRange"
  by (auto simp: single_flow_safe_def OutgoingStream_CreateTrack_def at_def Let_def
      split: option.splits)

lemma OutgoingStream_CreateTrack_present:
  "single_flow_safe track \<Longrightarrow> o_tracks out (ti_id track) \<noteq> None \<Longrightarrow>
   OutgoingStream_CreateTrack w out track = Inr (None, out, w)"
  by (auto simp: single_flow_safe_def OutgoingStream_CreateTrack_def at_def Let_def
      split: option.splits)

lemma OutgoingStream_CreateTrack_fresh:
  "single_flow_safe track \<Longrightarrow> o_tracks out (ti_id track) = None \<Longrightarrow> o_transport out = Some tr \<Longrightarrow>
   OutgoingStream_CreateTrack w out track =
     Inr (Some (newOutgoingStreamTrack (ti_media track) (ti_id track) (TransportToSender tr)
                  (single_source track)),
          out\<lparr>o_tracks := (o_tracks out)(ti_id track \<mapsto>
                 newOutgoingStreamTrack (ti_media track) (ti_id track) (TransportToSender tr)
                   (single_source track))\<rparr>,
          w\<lparr>outgoingGroups := outgoingGroups w @ [single_source track],
            notified := notified w @ map (\<lambda>l. (l, ti_id track)) (o_onAddTrackListeners out)\<rparr>)"
  by (auto simp: single_flow_safe_def OutgoingStream_CreateTrack_def at_def Let_def
      single_source_def single_companion_def NewRTPOutgoingSourceGroup_def
      newOutgoingStreamTrack_def AddOutgoingSourceGroup_def split: option.splits)




text \<open>
  C4, as amended. Take a descriptor with explicit encodings, none of which has an ssrc
  that fails to parse, whose rids are distinct, and such that for every ssrc an encoding
  declares no ssrc-group has an empty member list that is not nil and every FID or
  FEC-FR group whose first member is that ssrc has a second member. Then \<open>CreateTrack\<close>
  on a stream with a transport that has not the id yields as many source groups as
  encodings, keyed by rid and registered in the order of the encodings; the group of an
  encoding that declares an ssrc has it as media ssrc, and as rtx (fec) ssrc the second
  member of the last FID (FEC-FR) group whose first member is that ssrc, 0 where there
  is none; the group of an encoding without ssrc parameter has 0 in all three.
\<close>

theorem CreateTrack_explicit_encodings:
  assumes fresh: "Tracks i (ti_id track) = None" and live: "Transport i = Some tr"
    and explicit: "ti_encodings track \<noteq> []"
    and rids: "distinct (map tei_id (concat (ti_encodings track)))"
    and good: "\<forall>e\<in>set (concat (ti_encodings track)). \<not> encoding_skipped e \<and> encoding_safe track e"
  shows "\<exists>t i' w'. IncomingStream_CreateTrack w i track = Inr (Some t, i', w') \<and>
           dom (it_sources t) = tei_id ` set (concat (ti_encodings track)) \<and>
           card (dom (it_sources t)) = length (concat (ti_encodings track)) \<and>
           incomingGroups w' =
             incomingGroups w @ map (\<lambda>e. the (it_sources t (tei_id e))) (concat (ti_encodings track)) \<and>
           (\<forall>e\<in>set (concat (ti_encodings track)).
              \<exists>g. it_sources t (tei_id e) = Some g \<and> in_rid g = tei_id e \<and>
                  (case encoding_ssrc e of
                     None \<Rightarrow> in_media g = 0 \<and> in_rtx g = 0 \<and> in_fec g = 0
                   | Some ssrc \<Rightarrow>
                       in_media g = ssrc \<and>
                       in_rtx g = companion ''FID'' ssrc (ti_groups track) 0 \<and>
                       in_fec g = companion ''FEC-FR'' ssrc (ti_groups track) 0))"
proof -
  let ?es = "concat (ti_encodings track)"
  from resolve_items_safe [OF good rids, of tr "(Map.empty, w)"] obtain m where
    m: "resolve_items track (Some tr) ?es (Map.empty, w) =
          Inr (m, w\<lparr>incomingGroups := incomingGroups w @ map (encoding_group track) ?es\<rparr>)"
       "\<forall>e\<in>set ?es. m (tei_id e) = Some (encoding_group track e)"
       "\<forall>k. k \<notin> tei_id ` set ?es \<longrightarrow> m k = None"
    by auto
  let ?t = "NewIncomingStreamTrack (ti_media track) (ti_id track) (Receiver i) m"
  have res: "resolve track (Transport i) w =
               Inr (m, w\<lparr>incomingGroups := incomingGroups w @ map (encoding_group track) ?es\<rparr>)"
    using m(1) live explicit by (simp add: resolve_explicit)
  have dom: "dom m = tei_id ` set ?es"
    using m(2) m(3) by (rule dom_of_keys)
  have card: "card (dom m) = length ?es"
    using rids dom by (metis distinct_card length_map set_map)
  have regs: "map (encoding_group track) ?es = map (\<lambda>e. the (m (tei_id e))) ?es"
    using m(2) by simp
  have each: "\<forall>e\<in>set ?es. \<exists>g. m (tei_id e) = Some g \<and> in_rid g = tei_id e \<and>
                  (case encoding_ssrc e of
                     None \<Rightarrow> in_media g = 0 \<and> in_rtx g = 0 \<and> in_fec g = 0
                   | Some ssrc \<Rightarrow>
                       in_media g = ssrc \<and>
                       in_rtx g = companion ''FID'' ssrc (ti_groups track) 0 \<and>
                       in_fec g = companion ''FEC-FR'' ssrc (ti_groups track) 0)"
    using m(2) by (auto simp: encoding_group_def split: option.splits)
  show ?thesis
    using IncomingStream_CreateTrack_fresh [OF fresh res] dom card regs each
    by (intro exI [of _ ?t]) auto
qed

text \<open>
  C7. An encoding whose ssrc does not parse is skipped: its turn of the loop returns with
  the mapping and the native side as they were, and \<open>CreateTrack\<close> on a live stream
  does what it does for the descriptor without that encoding.
\<close>

theorem CreateTrack_skips_unparseable:
  assumes live: "Transport i = Some tr"
    and bad: "tei_params encoding ''ssrc'' = Some v" "ParseUint v = None"
    and at_place: "ti_encodings track = before @ [ys @ [encoding] @ zs] @ after"
  shows "resolve_encoding track (Transport i) encoding st = Inr st \<and>
         IncomingStream_CreateTrack w i track =
           IncomingStream_CreateTrack w i (track\<lparr>ti_encodings := before @ [ys @ zs] @ after\<rparr>)"
proof -
  have skipped: "encoding_skipped encoding"
    using bad by (simp add: encoding_skipped_def)
  let ?track' = "track\<lparr>ti_encodings := before @ [ys @ zs] @ after\<rparr>"
  have cc: "concat (ti_encodings track) = (concat before @ ys) @ [encoding] @ (zs @ concat after)"
    using at_place by simp
  have cc': "concat (ti_encodings ?track') = (concat before @ ys) @ (zs @ concat after)"
    by simp
  have "resolve track (Some tr) w = resolve ?track' (Some tr) w"
    using at_place resolve_items_skip [OF skipped, of track tr "concat before @ ys" "zs @ concat after"]
    by (simp add: resolve_explicit cc resolve_items_encodings_update)
  then have "IncomingStream_CreateTrack w i track = IncomingStream_CreateTrack w i ?track'"
    using live by (simp add: IncomingStream_CreateTrack_def cong: sum.case_cong)
  then show ?thesis
    using live resolve_encoding_skip [OF skipped] by simp
qed



text \<open>
  C10. The reads of the descriptor are not guarded. On a live incoming stream that has
  not the id, and for a descriptor with no encodings, \<open>CreateTrack\<close> returns exactly
  when the reads of its branch are in range (the single flow, or the SIM loop), and
  panics with an index out of range otherwise. The outgoing \<open>CreateTrack\<close> panics in
  the same way whenever the reads of the single flow are out of range, whatever the
  stream, and returns otherwise if the stream has the id or a transport.
\<close>

theorem CreateTrack_unguarded_reads:
  "(Tracks i (ti_id track) = None \<and> Transport i = Some tr \<and> ti_encodings track = [] \<longrightarrow>
      (case GetSourceGroup track ''SIM'' of
         None \<Rightarrow>
           (if single_flow_safe track
            then \<exists>r. IncomingStream_CreateTrack w i track = Inr r
            else IncomingStream_CreateTrack w i track = Inl IndexOutOfRange)
       | Some SIM \<Rightarrow>
           (if sim_safe track (elems (sgi_ssrcs SIM))
            then \<exists>r. IncomingStream_CreateTrack w i track = Inr r
            else IncomingStream_CreateTrack w i track = Inl IndexOutOfRange))) \<and>
   (if single_flow_safe track
    then (o_tracks out (ti_id track) = None \<longrightarrow> o_transport out \<noteq> None) \<longrightarrow>
         (\<exists>r. OutgoingStream_CreateTrack w out track = Inr r)
    else OutgoingStream_CreateTrack w out track = Inl IndexOutOfRange)"
proof (intro conjI impI)
  assume a: "Tracks i (ti_id track) = None \<and> Transport i = Some tr \<and> ti_encodings track = []"
  then have fresh: "Tracks i (ti_id track) = None" and live: "Transport i = Some tr"
    and none: "ti_encodings track = []" by simp_all
  show "case GetSourceGroup track ''SIM'' of
         None \<Rightarrow>
           (if single_flow_safe track
            then \<exists>r. IncomingStream_CreateTrack w i track = Inr r
            else IncomingStream_CreateTrack w i track = Inl IndexOutOfRange)
       | Some SIM \<Rightarrow>
           (if sim_safe track (elems (sgi_ssrcs SIM))
            then \<exists>r. IncomingStream_CreateTrack w i track = Inr r
            else IncomingStream_CreateTrack w i track = Inl IndexOutOfRange)"
  proof (cases "GetSourceGroup track ''SIM''")
    case None
    show ?thesis
    proof (cases "single_flow_safe track")
      case True
      have "\<exists>sources w1. resolve track (Transport i) w = Inr (sources, w1)"
        using resolve_single_safe [OF True, of tr "(Map.empty, w)"] live none None
        by (simp add: resolve_fallback)
      then show ?thesis
        using None True IncomingStream_CreateTrack_fresh [OF fresh] by auto
    next
      case False
      have "resolve track (Transport i) w = Inl IndexOutOfRange"
        using resolve_single_unsafe [OF False, of tr "(Map.empty, w)"] live none None
        by (simp add: resolve_fallback)
      then show ?thesis
        using None False IncomingStream_CreateTrack_panic [OF fresh] by simp
    qed
  next
    case (Some SIM)
    show ?thesis
    proof (cases "sim_safe track (elems (sgi_ssrcs SIM))")
      case True
      have "\<exists>sources w1. resolve track (Transport i) w = Inr (sources, w1)"
        using resolve_sim_safe [OF True, of tr 0 "(Map.empty, w)"] live none Some
        by (auto simp: resolve_legacy)
      then show ?thesis
        using Some True IncomingStream_CreateTrack_fresh [OF fresh] by auto
    next
      case False
      have "resolve track (Transport i) w = Inl IndexOutOfRange"
        using resolve_sim_unsafe [OF False, of tr 0 "(Map.empty, w)"] live none Some
        by (simp add: resolve_legacy)
      then show ?thesis
        using Some False IncomingStream_CreateTrack_panic [OF fresh] by simp
    qed
  qed
next
  show "if single_flow_safe track
    then (o_tracks out (ti_id track) = None \<longrightarrow> o_transport out \<noteq> None) \<longrightarrow>
         (\<exists>r. OutgoingStream_CreateTrack w out track = Inr r)
    else OutgoingStream_CreateTrack w out track = Inl IndexOutOfRange"
  proof (cases "single_flow_safe track")
    case True
    show ?thesis
    proof (cases "o_tracks out (ti_id track)")
      case None
      then show ?thesis
        using True OutgoingStream_CreateTrack_fresh [OF True None, of _ w] by auto
    next
      case (Some t)
      then show ?thesis
        using True OutgoingStream_CreateTrack_present [OF True, of out w] by auto
    qed
  next
    case False
    then show ?thesis by (simp add: OutgoingStream_CreateTrack_unsafe)
  qed
qed

section \<open>Stop and AddTrack\<close>

lemma stop_incoming_tracks_result:
  "distinct order \<Longrightarrow>
   stop_incoming_tracks order (m, w) =
     ((\<lambda>k. if k \<in> set order then None else m k),
      w\<lparr>stoppedTracks := stoppedTracks w @ map it_id (map snd (range_map order m))\<rparr>)"
proof (induction order arbitrary: m w)
  case Nil
  then show ?case by (simp add: range_map_Nil)
next
  case (Cons k order)
  then have d: "distinct order" and k: "k \<notin> set order" by simp_all
  show ?case
  proof (cases "m k")
    case None
    have "(\<lambda>x. if x \<in> set order then None else m x) =
          (\<lambda>x. if x \<in> set (k # order) then None else m x)"
      using None by auto
    then show ?thesis
      using None Cons.IH [OF d, of m w] by (simp add: range_map_Cons)
  next
    case (Some track)
    let ?m1 = "m(k := None)"
    let ?w1 = "IncomingStreamTrack_Stop track w"
    have step: "stop_incoming_tracks (k # order) (m, w) = stop_incoming_tracks order (?m1, ?w1)"
      using Some by simp
    have maps: "(\<lambda>x. if x \<in> set order then None else ?m1 x) =
          (\<lambda>x. if x \<in> set (k # order) then None else m x)"
      by auto
    have rm: "range_map (k # order) m = (k, track) # range_map order ?m1"
      using Some k by (simp add: range_map_Cons range_map_delete)
    have "stop_incoming_tracks order (?m1, ?w1) =
            ((\<lambda>x. if x \<in> set order then None else ?m1 x),
             ?w1\<lparr>stoppedTracks := stoppedTracks ?w1 @ map it_id (map snd (range_map order ?m1))\<rparr>)"
      by (rule Cons.IH [OF d])
    then show ?thesis
      unfolding step maps rm by (simp add: IncomingStreamTrack_Stop_def)
  qed
qed

lemma stop_outgoing_tracks_result:
  "stop_outgoing_tracks order m w =
     w\<lparr>stoppedTracks := stoppedTracks w @ map ot_id (map snd (range_map order m)),
       outgoingGroups :=
         filter (\<lambda>g. g \<notin> ot_source ` set (map snd (range_map order m))) (outgoingGroups w)\<rparr>"
proof (induction order arbitrary: w)
  case Nil
  then show ?case by (simp add: range_map_Nil)
next
  case (Cons k order)
  show ?case
  proof (cases "m k")
    case None
    then show ?thesis using Cons.IH by (simp add: range_map_Cons)
  next
    case (Some track)
    have f: "filter P (removeAll (ot_source track) xs) =
                filter (\<lambda>g. g \<noteq> ot_source track \<and> P g) xs" for P xs
      by (induction xs) auto
    show ?thesis
      using Some Cons.IH
      by (simp add: range_map_Cons OutgoingStreamTrack_Stop_def DeleteOutgoingSourceGroup_def f)
  qed
qed

text \<open>
  C8. \<open>Stop\<close> on a stream with a transport stops every track and leaves the track map
  empty and the transport nil; the incoming stream also deletes its receiver, the
  outgoing stream also takes the source group of every track out of the transport's
  table. \<open>Stop\<close> on a stream without transport changes nothing, and so does a second
  \<open>Stop\<close>.
\<close>

theorem Stop_empties_and_is_idempotent:
  assumes vi: "visits order (Tracks i)" and vo: "visits order' (o_tracks out)"
  shows "(Transport i \<noteq> None \<longrightarrow>
            (\<exists>w'. IncomingStream_Stop order w i =
                     (i\<lparr>Tracks := Map.empty, Receiver := None, Transport := None\<rparr>, w') \<and>
                  stoppedTracks w' = stoppedTracks w @ map it_id (IncomingStream_GetTracks order i) \<and>
                  deletedReceivers w' = deletedReceivers w @ [Receiver i])) \<and>
         (Transport i = None \<longrightarrow> IncomingStream_Stop order w i = (i, w)) \<and>
         (\<forall>again. IncomingStream_Stop again (snd (IncomingStream_Stop order w i))
                    (fst (IncomingStream_Stop order w i)) = IncomingStream_Stop order w i) \<and>
         (o_transport out \<noteq> None \<longrightarrow>
            (\<exists>w'. OutgoingStream_Stop order' w out =
                     (out\<lparr>o_tracks := Map.empty, o_transport := None\<rparr>, w') \<and>
                  stoppedTracks w' = stoppedTracks w @ map ot_id (OutgoingStream_GetTracks order' out) \<and>
                  outgoingGroups w' =
                    filter (\<lambda>g. g \<notin> ot_source ` ran (o_tracks out)) (outgoingGroups w))) \<and>
         (o_transport out = None \<longrightarrow> OutgoingStream_Stop order' w out = (out, w)) \<and>
         (\<forall>again. OutgoingStream_Stop again (snd (OutgoingStream_Stop order' w out))
                    (fst (OutgoingStream_Stop order' w out)) = OutgoingStream_Stop order' w out)"
proof -
  from vi have d: "distinct order" and keys: "set order = dom (Tracks i)"
    by (simp_all add: visits_def)
  have emptied: "(\<lambda>k. if k \<in> set order then None else Tracks i k) = Map.empty"
    using keys by (auto simp: dom_def)
  have inc: "Transport i \<noteq> None \<longrightarrow>
            (\<exists>w'. IncomingStream_Stop order w i =
                     (i\<lparr>Tracks := Map.empty, Receiver := None, Transport := None\<rparr>, w') \<and>
                  stoppedTracks w' = stoppedTracks w @ map it_id (IncomingStream_GetTracks order i) \<and>
                  deletedReceivers w' = deletedReceivers w @ [Receiver i])"
    using stop_incoming_tracks_result [OF d, of "Tracks i" w] emptied
    by (simp add: IncomingStream_Stop_def IncomingStream_GetTracks_def Let_def)
  have inc_again: "\<forall>again. IncomingStream_Stop again (snd (IncomingStream_Stop order w i))
                    (fst (IncomingStream_Stop order w i)) = IncomingStream_Stop order w i"
    by (simp add: IncomingStream_Stop_def Let_def)
  have ran: "set (map snd (range_map order' (o_tracks out))) = ran (o_tracks out)"
    using set_range_map_visits [OF vo] by simp
  have outg: "o_transport out \<noteq> None \<longrightarrow>
            (\<exists>w'. OutgoingStream_Stop order' w out =
                     (out\<lparr>o_tracks := Map.empty, o_transport := None\<rparr>, w') \<and>
                  stoppedTracks w' = stoppedTracks w @ map ot_id (OutgoingStream_GetTracks order' out) \<and>
                  outgoingGroups w' =
                    filter (\<lambda>g. g \<notin> ot_source ` ran (o_tracks out)) (outgoingGroups w))"
    using ran
    by (simp add: OutgoingStream_Stop_def OutgoingStream_GetTracks_def stop_outgoing_tracks_result)
  have out_again: "\<forall>again. OutgoingStream_Stop again (snd (OutgoingStream_Stop order' w out))
                    (fst (OutgoingStream_Stop order' w out)) = OutgoingStream_Stop order' w out"
    by (simp add: OutgoingStream_Stop_def)
  show ?thesis
    using inc inc_again outg out_again
    by (simp add: IncomingStream_Stop_def OutgoingStream_Stop_def)
qed

text \<open>
  C2, as amended. \<open>AddTrack\<close> leaves the stream as it is when it has the track's id, and
  adds the track under its id otherwise. The incoming stream returns an error in the
  first case and nil in the second; the outgoing stream returns nothing in either.
\<close>

theorem AddTrack_duplicate_id:
  "(Tracks i (it_id t) \<noteq> None \<longrightarrow>
      IncomingStream_AddTrack i t = (Some (Error ''Track Id already present in stream''), i)) \<and>
   (Tracks i (it_id t) = None \<longrightarrow>
      IncomingStream_AddTrack i t = (None, i\<lparr>Tracks := (Tracks i)(it_id t \<mapsto> t)\<rparr>)) \<and>
   (o_tracks out (ot_id u) \<noteq> None \<longrightarrow> OutgoingStream_AddTrack out u = (None, out)) \<and>
   (o_tracks out (ot_id u) = None \<longrightarrow>
      OutgoingStream_AddTrack out u = (None, out\<lparr>o_tracks := (o_tracks out)(ot_id u \<mapsto> u)\<rparr>))"
  by (simp add: IncomingStream_AddTrack_def OutgoingStream_AddTrack_def)

section \<open>The scenarios\<close>

lemma fid_track_resolves:
  "\<not> encoding_skipped \<lparr>tei_id = ''hi'', tei_params = [''ssrc'' \<mapsto> ''1111'']\<rparr>"
  "encoding_ssrc \<lparr>tei_id = ''hi'', tei_params = [''ssrc'' \<mapsto> ''1111'']\<rparr> = Some 1111"
  "ParseUint ''abc'' = None"
  "ParseUint ''1111'' = Some 1111"
  by (simp_all add: encoding_skipped_def encoding_ssrc_def ParseUint_def digit_val_def)

lemma fid_companions:
  "companion ''FID'' 1111 [\<lparr>sgi_semantics = ''FID'', sgi_ssrcs = Some [1111, 2222]\<rparr>] 0 = 2222"
  "companion ''FEC-FR'' 1111 [\<lparr>sgi_semantics = ''FID'', sgi_ssrcs = Some [1111, 2222]\<rparr>] 0 = 0"
  by (simp_all add: companion_def first_is_def elems_def)

text \<open>
  The scenario of C4: one encoding with ssrc 1111 and the group FID = [1111, 2222] gives
  one source group with media ssrc 1111, rtx ssrc 2222 and fec ssrc 0.
\<close>

theorem CreateTrack_fid_scenario:
  "\<exists>t i' w' g. IncomingStream_CreateTrack idle_native live_incoming fid_track = Inr (Some t, i', w') \<and>
      card (dom (it_sources t)) = 1 \<and> incomingGroups w' = [g] \<and>
      it_sources t ''hi'' = Some g \<and> in_rid g = ''hi'' \<and>
      in_media g = 1111 \<and> in_rtx g = 2222 \<and> in_fec g = 0"
proof -
  have "\<exists>t i' w'. IncomingStream_CreateTrack idle_native live_incoming fid_track = Inr (Some t, i', w') \<and>
           dom (it_sources t) = tei_id ` set (concat (ti_encodings fid_track)) \<and>
           card (dom (it_sources t)) = length (concat (ti_encodings fid_track)) \<and>
           incomingGroups w' =
             incomingGroups idle_native @ map (\<lambda>e. the (it_sources t (tei_id e))) (concat (ti_encodings fid_track)) \<and>
           (\<forall>e\<in>set (concat (ti_encodings fid_track)).
              \<exists>g. it_sources t (tei_id e) = Some g \<and> in_rid g = tei_id e \<and>
                  (case encoding_ssrc e of
                     None \<Rightarrow> in_media g = 0 \<and> in_rtx g = 0 \<and> in_fec g = 0
                   | Some ssrc \<Rightarrow>
                       in_media g = ssrc \<and>
                       in_rtx g = companion ''FID'' ssrc (ti_groups fid_track) 0 \<and>
                       in_fec g = companion ''FEC-FR'' ssrc (ti_groups fid_track) 0))"
    by (rule CreateTrack_explicit_encodings [of live_incoming fid_track 1])
       (simp_all add: scenario_defs fid_track_resolves encoding_safe_def group_safe_encoding_def
          second_ok_def first_is_def elems_def)
  then obtain t i' w' where t:
    "IncomingStream_CreateTrack idle_native live_incoming fid_track = Inr (Some t, i', w')"
    "card (dom (it_sources t)) = length (concat (ti_encodings fid_track))"
    "incomingGroups w' =
       incomingGroups idle_native @ map (\<lambda>e. the (it_sources t (tei_id e))) (concat (ti_encodings fid_track))"
    "\<forall>e\<in>set (concat (ti_encodings fid_track)).
              \<exists>g. it_sources t (tei_id e) = Some g \<and> in_rid g = tei_id e \<and>
                  (case encoding_ssrc e of
                     None \<Rightarrow> in_media g = 0 \<and> in_rtx g = 0 \<and> in_fec g = 0
                   | Some ssrc \<Rightarrow>
                       in_media g = ssrc \<and>
                       in_rtx g = companion ''FID'' ssrc (ti_groups fid_track) 0 \<and>
                       in_fec g = companion ''FEC-FR'' ssrc (ti_groups fid_track) 0)"
    by blast
  from t(4) obtain g where g: "it_sources t ''hi'' = Some g" "in_rid g = ''hi''"
    "in_media g = 1111" "in_rtx g = 2222" "in_fec g = 0"
    by (auto simp: fid_track_def fid_track_resolves fid_companions)
  from t(2) have c: "card (dom (it_sources t)) = 1" by (simp add: fid_track_def)
  from t(3) g(1) have r: "incomingGroups w' = [g]" by (simp add: fid_track_def idle_native_def)
  from t(1) c r g show ?thesis by blast
qed

text \<open>
  Against C4 as stated: a descriptor with one explicit encoding whose ssrc does not parse
  gives a track with no source group, and none is registered.
\<close>

theorem CreateTrack_unparseable_yields_none:
  "length (concat (ti_encodings unparseable_track)) = 1 \<and>
   IncomingStream_CreateTrack idle_native live_incoming unparseable_track =
     Inr (Some (NewIncomingStreamTrack ''video'' ''v0'' (Some 2) Map.empty),
          live_incoming\<lparr>Tracks := [''v0'' \<mapsto> NewIncomingStreamTrack ''video'' ''v0'' (Some 2) Map.empty]\<rparr>,
          idle_native)"
  by (simp add: IncomingStream_CreateTrack_def resolve_def resolve_encoding_def
      NewRTPIncomingSourceGroup_def scenario_defs fid_track_resolves Let_def)

lemma plain_track_groups:
  "GetSourceGroup plain_track ''FID'' = Some \<lparr>sgi_semantics = ''FID'', sgi_ssrcs = Some [1111, 2222]\<rparr>"
  "GetSourceGroup plain_track ''FEC-FR'' = None"
  "GetSourceGroup plain_track ''SIM'' = None"
  by (simp_all add: GetSourceGroup_def scenario_defs)

lemma plain_track_safe: "single_flow_safe plain_track"
  by (simp add: single_flow_safe_def plain_track_groups elems_def) (simp add: scenario_defs)

lemma plain_track_companions:
  "single_companion plain_track ''FID'' = 2222" "single_companion plain_track ''FEC-FR'' = 0"
  "ti_ssrcs plain_track ! 0 = 1111" "ti_id plain_track = ''v0''" "ti_encodings plain_track = []"
  by (simp_all add: single_companion_def plain_track_groups elems_def) (simp_all add: scenario_defs)

text \<open>
  Two encodings that share a rid are both registered with the transport, and the track
  keeps one source group under the rid.
\<close>

lemma CreateTrack_shared_rid:
  "\<exists>t i' w'. IncomingStream_CreateTrack idle_native live_incoming twin_track = Inr (Some t, i', w') \<and>
      length (concat (ti_encodings twin_track)) = 2 \<and> dom (it_sources t) = {''hi''} \<and>
      length (incomingGroups w') = 2"
  by (simp add: IncomingStream_CreateTrack_def resolve_def resolve_encoding_def
      NewRTPIncomingSourceGroup_def scenario_defs twin_track_def fid_track_resolves Let_def
      at_def elems_def bind_companion_def AddIncomingSourceGroup_def mediaTypeOf_def)



lemma sim_track_facts:
  "GetSourceGroup sim_track ''SIM'' = Some \<lparr>sgi_semantics = ''SIM'', sgi_ssrcs = Some [10, 20]\<rparr>"
  "ti_encodings sim_track = []"
  "ti_groups sim_track = [\<lparr>sgi_semantics = ''SIM'', sgi_ssrcs = Some [10, 20]\<rparr>,
                   \<lparr>sgi_semantics = ''FID'', sgi_ssrcs = Some [10, 11]\<rparr>,
                   \<lparr>sgi_semantics = ''FEC-FR'', sgi_ssrcs = Some [20, 21]\<rparr>]"
  by (simp_all add: GetSourceGroup_def scenario_defs)

lemma sim_track_safe: "sim_safe sim_track [10, 20]"
  by (simp add: sim_safe_def sim_track_facts group_safe_sim_def second_ok_def first_is_def elems_def)




text \<open>
  C7 for two encodings of which the second does not parse: the outcome is that of the
  descriptor with the first encoding alone, one source group.
\<close>

theorem CreateTrack_skips_unparseable_scenario:
  "ParseUint ''abc'' = None \<and>
   IncomingStream_CreateTrack idle_native live_incoming mixed_track =
     IncomingStream_CreateTrack idle_native live_incoming fid_track \<and>
   (\<exists>t i' w' g. IncomingStream_CreateTrack idle_native live_incoming mixed_track =
        Inr (Some t, i', w') \<and>
      dom (it_sources t) = {''hi''} \<and> incomingGroups w' = [g] \<and> in_media g = 1111)"
proof -
  let ?good = "\<lparr>tei_id = ''hi'', tei_params = [''ssrc'' \<mapsto> ''1111'']\<rparr>"
  let ?bad = "\<lparr>tei_id = ''lo'', tei_params = [''ssrc'' \<mapsto> ''abc'']\<rparr>"
  have live: "Transport live_incoming = Some 1" by (simp add: scenario_defs)
  have bad: "tei_params ?bad ''ssrc'' = Some ''abc''" by simp
  have place: "ti_encodings mixed_track = [] @ [[?good] @ [?bad] @ []] @ []"
    by (simp add: scenario_defs)
  have less: "mixed_track\<lparr>ti_encodings := [] @ [[?good] @ []] @ []\<rparr> = fid_track"
    by (simp add: scenario_defs)
  have same: "IncomingStream_CreateTrack idle_native live_incoming mixed_track =
     IncomingStream_CreateTrack idle_native live_incoming fid_track"
    using CreateTrack_skips_unparseable [OF live bad fid_track_resolves(3) place, of "(Map.empty, idle_native)" idle_native]
    unfolding less by simp
  have "\<exists>t i' w' g. IncomingStream_CreateTrack idle_native live_incoming fid_track =
        Inr (Some t, i', w') \<and>
      dom (it_sources t) = {''hi''} \<and> incomingGroups w' = [g] \<and> in_media g = 1111"
    by (simp add: IncomingStream_CreateTrack_def resolve_def resolve_encoding_def
      NewRTPIncomingSourceGroup_def scenario_defs fid_track_resolves Let_def at_def elems_def
      bind_companion_def AddIncomingSourceGroup_def mediaTypeOf_def)
  with same show ?thesis by (simp add: fid_track_resolves)
qed

lemma scenario_keys:
  "dom (Tracks scenario_in) = {''a0'', ''a1'', ''v0''}"
  "dom (o_tracks scenario_out) = {''a'', ''v''}"
  by (simp_all add: scenario_in_def scenario_out_def live_incoming_def live_outgoing_def
      insert_commute)

lemma scenario_visits:
  "visits [''a0'', ''a1'', ''v0''] (Tracks scenario_in)"
  "visits [''a'', ''v''] (o_tracks scenario_out)"
  by (simp_all add: visits_def scenario_keys insert_commute)

text \<open>
  Attaching the outgoing stream of the scenario to an incoming stream with one audio and
  one video track pairs both kinds: two transponders, and the stream keeps its tracks.
\<close>

lemma fitting_attach:
  "\<exists>tps out'. OutgoingStream_AttachTo [''a'', ''v''] [''a'', ''v''] [''a0'', ''v0''] [''a'', ''v'']
       [''a0'', ''v0''] scenario_out fitting_in = Inr (tps, out') \<and> length tps = 2 \<and>
     dom (o_tracks out') = {''a'', ''v''}"
  by (simp add: OutgoingStream_AttachTo_def OutgoingStream_Detach_def attach_kind_def
      audio_entries_def video_entries_def IncomingStream_GetAudioTracks_def
      IncomingStream_GetVideoTracks_def range_map_Cons range_map_Nil at_def
      OutgoingStreamTrack_AttachTo_def OutgoingStreamTrack_Detach_def ToLower_kinds
      scenario_defs fitting_in_def insert_commute Let_def)

text \<open>
  C9 for the outgoing stream of the scenario, whose audio track is attached: after
  \<open>Detach\<close> both tracks are there, and the audio track has its id, kind and source group
  and a transponder with no incoming side; attached again, the detached stream gives
  the two transponders the stream itself gives.
\<close>

theorem Detach_scenario:
  "dom (o_tracks (OutgoingStream_Detach [''a'', ''v''] scenario_out)) = {''a'', ''v''} \<and>
   (\<exists>t'. o_tracks (OutgoingStream_Detach [''a'', ''v''] scenario_out) ''a'' = Some t' \<and>
         ot_id t' = ''a'' \<and> ot_media t' = ''audio'' \<and> ot_source t' = scenario_source \<and>
         ot_transponder t' = Some \<lparr>tp_outgoing = scenario_source, tp_incoming = None\<rparr>) \<and>
   (\<exists>tps out'.
       OutgoingStream_AttachTo [''a'', ''v''] [''a'', ''v''] [''a0'', ''v0''] [''a'', ''v'']
         [''a0'', ''v0''] (OutgoingStream_Detach [''a'', ''v''] scenario_out) fitting_in =
         Inr (tps, out') \<and>
       OutgoingStream_AttachTo [''a'', ''v''] [''a'', ''v''] [''a0'', ''v0''] [''a'', ''v'']
         [''a0'', ''v0''] scenario_out fitting_in = Inr (tps, out') \<and>
       length tps = 2 \<and> dom (o_tracks out') = {''a'', ''v''})"
proof -
  let ?track = "(newOutgoingStreamTrack ''audio'' ''a'' 1 scenario_source)
                   \<lparr>ot_transponder := Some \<lparr>tp_outgoing = scenario_source,
                                            tp_incoming = Some scenario_audio\<rparr>\<rparr>"
  have a: "o_tracks scenario_out ''a'' = Some ?track"
    by (simp add: scenario_out_def)
  note kept = Detach_keeps_tracks [OF scenario_visits(2) scenario_visits(2),
      of "[''a'', ''v'']" "[''a0'', ''v0'']" "[''a'', ''v'']" "[''a0'', ''v0'']" fitting_in]
  from kept have d: "dom (o_tracks (OutgoingStream_Detach [''a'', ''v''] scenario_out)) = {''a'', ''v''}"
    by (simp add: scenario_keys)
  from kept a obtain t' where t': "o_tracks (OutgoingStream_Detach [''a'', ''v''] scenario_out) ''a'' = Some t'"
    "ot_id t' = ot_id ?track" "ot_media t' = ot_media ?track" "ot_source t' = ot_source ?track"
    "ot_transponder t' = map_option (\<lambda>tp. tp\<lparr>tp_incoming := None\<rparr>) (ot_transponder ?track)"
    by blast
  have f: "ot_id ?track = ''a''" "ot_media ?track = ''audio''" "ot_source ?track = scenario_source"
    "map_option (\<lambda>tp. tp\<lparr>tp_incoming := None\<rparr>) (ot_transponder ?track) =
       Some \<lparr>tp_outgoing = scenario_source, tp_incoming = None\<rparr>"
    by (simp_all add: newOutgoingStreamTrack_def)
  from kept have again: "OutgoingStream_AttachTo [''a'', ''v''] [''a'', ''v''] [''a0'', ''v0''] [''a'', ''v'']
     [''a0'', ''v0''] (OutgoingStream_Detach [''a'', ''v''] scenario_out) fitting_in =
   OutgoingStream_AttachTo [''a'', ''v''] [''a'', ''v''] [''a0'', ''v0''] [''a'', ''v'']
     [''a0'', ''v0''] scenario_out fitting_in"
    by blast
  from fitting_attach obtain tps where "\<exists>out'.
      OutgoingStream_AttachTo [''a'', ''v''] [''a'', ''v''] [''a0'', ''v0''] [''a'', ''v'']
       [''a0'', ''v0''] scenario_out fitting_in = Inr (tps, out') \<and> length tps = 2 \<and>
      dom (o_tracks out') = {''a'', ''v''}"
    by (rule exE)
  then obtain out' where rr:
    "OutgoingStream_AttachTo [''a'', ''v''] [''a'', ''v''] [''a0'', ''v0''] [''a'', ''v'']
       [''a0'', ''v0''] scenario_out fitting_in = Inr (tps, out') \<and> length tps = 2 \<and>
      dom (o_tracks out') = {''a'', ''v''}"
    by (rule exE)
  note r = rr [THEN conjunct1] rr [THEN conjunct2, THEN conjunct1]
    rr [THEN conjunct2, THEN conjunct2]
  from t' have c2: "\<exists>t'. o_tracks (OutgoingStream_Detach [''a'', ''v''] scenario_out) ''a'' = Some t' \<and>
         ot_id t' = ''a'' \<and> ot_media t' = ''audio'' \<and> ot_source t' = scenario_source \<and>
         ot_transponder t' = Some \<lparr>tp_outgoing = scenario_source, tp_incoming = None\<rparr>"
    unfolding f by blast
  from again r(1) have r': "OutgoingStream_AttachTo [''a'', ''v''] [''a'', ''v''] [''a0'', ''v0''] [''a'', ''v'']
     [''a0'', ''v0''] (OutgoingStream_Detach [''a'', ''v''] scenario_out) fitting_in = Inr (tps, out')"
    by (simp only:)
  have c3: "\<exists>tps out'.
       OutgoingStream_AttachTo [''a'', ''v''] [''a'', ''v''] [''a0'', ''v0''] [''a'', ''v'']
         [''a0'', ''v0''] (OutgoingStream_Detach [''a'', ''v''] scenario_out) fitting_in =
         Inr (tps, out') \<and>
       OutgoingStream_AttachTo [''a'', ''v''] [''a'', ''v''] [''a0'', ''v0''] [''a'', ''v'']
         [''a0'', ''v0''] scenario_out fitting_in = Inr (tps, out') \<and>
       length tps = 2 \<and> dom (o_tracks out') = {''a'', ''v''}"
    by (intro exI [of _ tps] exI [of _ out'] conjI) (rule r' r)+
  show ?thesis
    by (rule conjI [OF d conjI [OF c2 c3]])
qed

lemma scenario_tracks:
  "IncomingStream_GetTracks [''a0'', ''a1'', ''v0''] scenario_in =
     [scenario_audio, NewIncomingStreamTrack ''audio'' ''a1'' (Some 2) Map.empty,
      NewIncomingStreamTrack ''video'' ''v0'' (Some 2) Map.empty]"
  "OutgoingStream_GetTracks [''a'', ''v''] scenario_out =
     [(newOutgoingStreamTrack ''audio'' ''a'' 1 scenario_source)
         \<lparr>ot_transponder := Some \<lparr>tp_outgoing = scenario_source,
                                  tp_incoming = Some scenario_audio\<rparr>\<rparr>,
      newOutgoingStreamTrack ''video'' ''v'' 1 (scenario_source\<lparr>out_type := 1\<rparr>)]"
  by (simp_all add: IncomingStream_GetTracks_def OutgoingStream_GetTracks_def range_map_Cons
      range_map_Nil scenario_in_def scenario_out_def live_incoming_def live_outgoing_def)

lemma scenario_sources:
  "ot_source ` ran (o_tracks scenario_out) = {scenario_source, scenario_source\<lparr>out_type := 1\<rparr>}"
proof -
  have "ran (o_tracks scenario_out) = snd ` set (range_map [''a'', ''v''] (o_tracks scenario_out))"
    using set_range_map_visits [OF scenario_visits(2)] by simp
  also have "\<dots> = set (OutgoingStream_GetTracks [''a'', ''v''] scenario_out)"
    by (simp add: OutgoingStream_GetTracks_def)
  finally show ?thesis
    by (simp add: scenario_tracks newOutgoingStreamTrack_def)
qed

text \<open>
  C8 for the streams of the scenario: the tracks are stopped, the receiver is deleted,
  the source group of the outgoing tracks leaves the table while another group stays,
  and a second \<open>Stop\<close> changes nothing.
\<close>

theorem Stop_scenario:
  "(\<exists>w'. IncomingStream_Stop [''a0'', ''a1'', ''v0''] idle_native scenario_in =
            (scenario_in\<lparr>Tracks := Map.empty, Receiver := None, Transport := None\<rparr>, w') \<and>
         stoppedTracks w' = [''a0'', ''a1'', ''v0''] \<and> deletedReceivers w' = [Some 2]) \<and>
   (\<exists>w'. OutgoingStream_Stop [''a'', ''v''] registered_native scenario_out =
            (scenario_out\<lparr>o_tracks := Map.empty, o_transport := None\<rparr>, w') \<and>
         stoppedTracks w' = [''a'', ''v''] \<and>
         outgoingGroups w' = [scenario_source\<lparr>out_media := 7\<rparr>]) \<and>
   IncomingStream_Stop [''a0'']
     (snd (IncomingStream_Stop [''a0'', ''a1'', ''v0''] idle_native scenario_in))
     (fst (IncomingStream_Stop [''a0'', ''a1'', ''v0''] idle_native scenario_in)) =
     IncomingStream_Stop [''a0'', ''a1'', ''v0''] idle_native scenario_in \<and>
   OutgoingStream_Stop [''a'']
     (snd (OutgoingStream_Stop [''a'', ''v''] registered_native scenario_out))
     (fst (OutgoingStream_Stop [''a'', ''v''] registered_native scenario_out)) =
     OutgoingStream_Stop [''a'', ''v''] registered_native scenario_out"
proof -
  have live: "Transport scenario_in \<noteq> None" "o_transport scenario_out \<noteq> None"
    "Receiver scenario_in = Some 2"
    by (simp_all add: scenario_in_def scenario_out_def live_incoming_def live_outgoing_def)
  have ids: "map it_id (IncomingStream_GetTracks [''a0'', ''a1'', ''v0''] scenario_in) =
               [''a0'', ''a1'', ''v0'']"
    "map ot_id (OutgoingStream_GetTracks [''a'', ''v''] scenario_out) = [''a'', ''v'']"
    by (simp_all add: scenario_tracks scenario_audio_def NewIncomingStreamTrack_def
        newOutgoingStreamTrack_def)
  have left: "filter (\<lambda>g. g \<notin> ot_source ` ran (o_tracks scenario_out))
                (outgoingGroups registered_native) = [scenario_source\<lparr>out_media := 7\<rparr>]"
    unfolding scenario_sources
    by (simp add: registered_native_def idle_native_def scenario_source_def)
  have none: "stoppedTracks idle_native = []" "deletedReceivers idle_native = []"
    "stoppedTracks registered_native = []"
    by (simp_all add: idle_native_def registered_native_def)
  note inc = Stop_empties_and_is_idempotent [OF scenario_visits(1) scenario_visits(2),
      of idle_native]
  note outg = Stop_empties_and_is_idempotent [OF scenario_visits(1) scenario_visits(2),
      of registered_native]
  from inc live have a: "\<exists>w'. IncomingStream_Stop [''a0'', ''a1'', ''v0''] idle_native scenario_in =
            (scenario_in\<lparr>Tracks := Map.empty, Receiver := None, Transport := None\<rparr>, w') \<and>
         stoppedTracks w' = stoppedTracks idle_native @
           map it_id (IncomingStream_GetTracks [''a0'', ''a1'', ''v0''] scenario_in) \<and>
         deletedReceivers w' = deletedReceivers idle_native @ [Receiver scenario_in]"
    by blast
  from outg live have b: "\<exists>w'. OutgoingStream_Stop [''a'', ''v''] registered_native scenario_out =
            (scenario_out\<lparr>o_tracks := Map.empty, o_transport := None\<rparr>, w') \<and>
         stoppedTracks w' = stoppedTracks registered_native @
           map ot_id (OutgoingStream_GetTracks [''a'', ''v''] scenario_out) \<and>
         outgoingGroups w' =
           filter (\<lambda>g. g \<notin> ot_source ` ran (o_tracks scenario_out)) (outgoingGroups registered_native)"
    by blast
  from inc have c: "IncomingStream_Stop [''a0'']
     (snd (IncomingStream_Stop [''a0'', ''a1'', ''v0''] idle_native scenario_in))
     (fst (IncomingStream_Stop [''a0'', ''a1'', ''v0''] idle_native scenario_in)) =
     IncomingStream_Stop [''a0'', ''a1'', ''v0''] idle_native scenario_in"
    by blast
  from outg have d: "OutgoingStream_Stop [''a'']
     (snd (OutgoingStream_Stop [''a'', ''v''] registered_native scenario_out))
     (fst (OutgoingStream_Stop [''a'', ''v''] registered_native scenario_out)) =
     OutgoingStream_Stop [''a'', ''v''] registered_native scenario_out"
    by blast
  from a b c d show ?thesis
    unfolding ids left none live(3) by simp
qed

lemma bare_track_facts:
  "GetSourceGroup bare_track ''SIM'' = None" "ti_encodings bare_track = []"
  "\<not> single_flow_safe bare_track" "ti_id bare_track = ''v0''"
  by (simp_all add: GetSourceGroup_def single_flow_safe_def bare_track_def plain_track_def
      fid_track_def)

lemma bare_sim_track_facts:
  "GetSourceGroup bare_sim_track ''SIM'' = Some \<lparr>sgi_semantics = ''SIM'', sgi_ssrcs = Some [10, 20]\<rparr>"
  "ti_encodings bare_sim_track = []" "ti_id bare_sim_track = ''v1''"
  "\<not> sim_safe bare_sim_track [10, 20]"
  by (auto simp: GetSourceGroup_def sim_safe_def group_safe_sim_def elems_def
      bare_sim_track_def sim_track_def)




text \<open>
  C10 for descriptors within and outside the precondition: with no ssrc at all, and with
  a SIM group beside a group that has no members, \<open>CreateTrack\<close> panics.
\<close>

theorem CreateTrack_unguarded_reads_scenario:
  "(\<exists>r. IncomingStream_CreateTrack idle_native live_incoming plain_track = Inr r) \<and>
   (\<exists>r. OutgoingStream_CreateTrack idle_native live_outgoing plain_track = Inr r) \<and>
   (\<exists>r. IncomingStream_CreateTrack idle_native live_incoming sim_track = Inr r) \<and>
   IncomingStream_CreateTrack idle_native live_incoming bare_track = Inl IndexOutOfRange \<and>
   OutgoingStream_CreateTrack idle_native live_outgoing bare_track = Inl IndexOutOfRange \<and>
   IncomingStream_CreateTrack idle_native live_incoming bare_sim_track = Inl IndexOutOfRange"
proof -
  have live: "Tracks live_incoming ''v0'' = None" "Tracks live_incoming ''v1'' = None"
    "Transport live_incoming = Some 1" "o_tracks live_outgoing ''v0'' = None"
    "o_transport live_outgoing \<noteq> None"
    by (simp_all add: live_incoming_def live_outgoing_def)
  have el: "elems (Some [10, 20 :: ssrc]) = [10, 20]" by (simp add: elems_def)
  have v1: "ti_id sim_track = ''v1''" by (simp add: sim_track_def)
  from CreateTrack_unguarded_reads [of live_incoming plain_track 1 idle_native live_outgoing]
  have a: "(\<exists>r. IncomingStream_CreateTrack idle_native live_incoming plain_track = Inr r) \<and>
           (\<exists>r. OutgoingStream_CreateTrack idle_native live_outgoing plain_track = Inr r)"
    by (simp add: live plain_track_groups plain_track_companions plain_track_safe)
  from CreateTrack_unguarded_reads [of live_incoming sim_track 1 idle_native live_outgoing]
  have b: "\<exists>r. IncomingStream_CreateTrack idle_native live_incoming sim_track = Inr r"
    by (simp add: live v1 sim_track_facts sim_track_safe el)
  from CreateTrack_unguarded_reads [of live_incoming bare_track 1 idle_native live_outgoing]
  have c: "IncomingStream_CreateTrack idle_native live_incoming bare_track = Inl IndexOutOfRange \<and>
           OutgoingStream_CreateTrack idle_native live_outgoing bare_track = Inl IndexOutOfRange"
    by (simp add: live bare_track_facts)
  from CreateTrack_unguarded_reads [of live_incoming bare_sim_track 1 idle_native live_outgoing]
  have d: "IncomingStream_CreateTrack idle_native live_incoming bare_sim_track = Inl IndexOutOfRange"
    by (simp add: live bare_sim_track_facts el)
  from a b c d show ?thesis by blast
qed

text \<open>
  Against C2 as stated: the outgoing stream has a track of the id, and \<open>AddTrack\<close>
  reports no error.
\<close>

theorem AddTrack_outgoing_duplicate_silent:
  "o_tracks scenario_out (ot_id (newOutgoingStreamTrack ''audio'' ''a'' 9 scenario_source)) \<noteq> None \<and>
   OutgoingStream_AddTrack scenario_out (newOutgoingStreamTrack ''audio'' ''a'' 9 scenario_source) =
     (None, scenario_out)"
  by (simp add: OutgoingStream_AddTrack_def newOutgoingStreamTrack_def scenario_out_def)

text \<open>C2 as amended, for an id the stream has and an id it has not, on both streams.\<close>

theorem AddTrack_scenario:
  "IncomingStream_AddTrack scenario_in scenario_audio =
     (Some (Error ''Track Id already present in stream''), scenario_in) \<and>
   IncomingStream_AddTrack live_incoming scenario_audio =
     (None, live_incoming\<lparr>Tracks := [''a0'' \<mapsto> scenario_audio]\<rparr>) \<and>
   OutgoingStream_AddTrack scenario_out (newOutgoingStreamTrack ''audio'' ''a'' 9 scenario_source) =
     (None, scenario_out) \<and>
   OutgoingStream_AddTrack live_outgoing (newOutgoingStreamTrack ''audio'' ''a'' 9 scenario_source) =
     (None, live_outgoing\<lparr>o_tracks := [''a'' \<mapsto> newOutgoingStreamTrack ''audio'' ''a'' 9 scenario_source]\<rparr>)"
proof -
  let ?u = "newOutgoingStreamTrack ''audio'' ''a'' 9 scenario_source"
  have ids: "it_id scenario_audio = ''a0''" "ot_id ?u = ''a''"
    by (simp_all add: scenario_audio_def NewIncomingStreamTrack_def newOutgoingStreamTrack_def)
  have has: "Tracks scenario_in ''a0'' \<noteq> None" "o_tracks scenario_out ''a'' \<noteq> None"
    "Tracks live_incoming = Map.empty" "o_tracks live_outgoing = Map.empty"
    by (simp_all add: scenario_in_def scenario_out_def live_incoming_def live_outgoing_def)
  from AddTrack_duplicate_id [of scenario_in scenario_audio scenario_out ?u]
  have a: "IncomingStream_AddTrack scenario_in scenario_audio =
     (Some (Error ''Track Id already present in stream''), scenario_in)"
    "OutgoingStream_AddTrack scenario_out ?u = (None, scenario_out)"
    by (simp_all add: ids has)
  from AddTrack_duplicate_id [of live_incoming scenario_audio live_outgoing ?u]
  have b: "IncomingStream_AddTrack live_incoming scenario_audio =
     (None, live_incoming\<lparr>Tracks := [''a0'' \<mapsto> scenario_audio]\<rparr>)"
    "OutgoingStream_AddTrack live_outgoing ?u = (None, live_outgoing\<lparr>o_tracks := [''a'' \<mapsto> ?u]\<rparr>)"
    by (simp_all add: ids has)
  from a b show ?thesis by blast
qed

end
